theory Spec2Isabelle
  imports Complex_Main
begin

section \<open>JavaScript values used by the collectors\<close>

text \<open>
  A JavaScript number is modelled as \<open>real option\<close>: \<open>None\<close> is \<open>NaN\<close>, \<open>Some x\<close> is the
  finite number \<open>x\<close>. Sums, differences and products of tick counters, byte counts and
  timestamps are taken exactly: these are integers far below \<open>2 ^ 53\<close>, where double
  arithmetic is exact. The difference, the quotient and the product of the CPU delta are
  rounded to the nearest double, as the code computes them (\<open>to_double\<close> below); the
  per-core percentage and the sizes are taken exactly before their rounding to a fixed
  number of decimals. No operation of the modelled code divides without a guard on the
  divisor, so infinities do not arise.
  A JavaScript string is a \<open>string\<close>; a character stands for one code unit below 256.
\<close>

type_synonym jsnum = "real option"

definition Math_min :: "jsnum \<Rightarrow> jsnum \<Rightarrow> jsnum" where
  "Math_min a b = (case (a, b) of (Some x, Some y) \<Rightarrow> Some (min x y) | _ \<Rightarrow> None)"

definition Math_max :: "jsnum \<Rightarrow> jsnum \<Rightarrow> jsnum" where
  "Math_max a b = (case (a, b) of (Some x, Some y) \<Rightarrow> Some (max x y) | _ \<Rightarrow> None)"

definition js_add :: "jsnum \<Rightarrow> jsnum \<Rightarrow> jsnum" where
  "js_add a b = (case (a, b) of (Some x, Some y) \<Rightarrow> Some (x + y) | _ \<Rightarrow> None)"

definition js_sub :: "jsnum \<Rightarrow> jsnum \<Rightarrow> jsnum" where
  "js_sub a b = (case (a, b) of (Some x, Some y) \<Rightarrow> Some (x - y) | _ \<Rightarrow> None)"

definition js_mul :: "jsnum \<Rightarrow> jsnum \<Rightarrow> jsnum" where
  "js_mul a b = (case (a, b) of (Some x, Some y) \<Rightarrow> Some (x * y) | _ \<Rightarrow> None)"

text \<open>\<open>x || 0\<close> on a number: \<open>NaN\<close> and \<open>0\<close> are falsy.\<close>

definition or_zero :: "jsnum \<Rightarrow> jsnum" where
  "or_zero a = (case a of None \<Rightarrow> Some 0 | Some x \<Rightarrow> Some x)"

text \<open>
  \<open>Number.prototype.toFixed(d)\<close> followed by \<open>parseFloat\<close>: the nearest multiple of
  \<open>10 ^ -d\<close>, a tie going away from zero; from \<open>10 ^ 21\<close> on \<open>toFixed\<close> prints the number
  itself; \<open>NaN\<close> prints as \<open>NaN\<close> and parses back to \<open>NaN\<close>.
\<close>

definition roundFixed :: "nat \<Rightarrow> real \<Rightarrow> real" where
  "roundFixed d x =
     (if \<bar>x\<bar> \<ge> 10 ^ 21 then x
      else sgn x * real_of_int \<lfloor>\<bar>x\<bar> * 10 ^ d + 1 / 2\<rfloor> / 10 ^ d)"

definition parseFloat_toFixed :: "nat \<Rightarrow> jsnum \<Rightarrow> jsnum" where
  "parseFloat_toFixed d a = map_option (roundFixed d) a"

subsection \<open>Rounding to a double\<close>

text \<open>\<open>2 ^ k\<close> for an integer \<open>k\<close>.\<close>

definition pow2 :: "int \<Rightarrow> real" where
  "pow2 k = (if 0 \<le> k then 2 ^ nat k else 1 / 2 ^ nat (- k))"

text \<open>The number of binary digits of a natural number.\<close>

fun bit_length :: "nat \<Rightarrow> nat" where
  "bit_length n = (if n = 0 then 0 else Suc (bit_length (n div 2)))"

declare bit_length.simps [simp del]

text \<open>The binary exponent of \<open>x > 0\<close>: the \<open>e\<close> with \<open>2 ^ e \<le> x < 2 ^ (e + 1)\<close>.\<close>

definition binary_exponent :: "real \<Rightarrow> int" where
  "binary_exponent x =
     (if x \<ge> 1 then int (bit_length (nat \<lfloor>x\<rfloor>)) - 1
      else - int (bit_length (nat (\<lceil>1 / x\<rceil> - 1))))"

text \<open>The nearest integer, a tie going to the even one.\<close>

definition round_even :: "real \<Rightarrow> int" where
  "round_even q =
     (let f = \<lfloor>q\<rfloor>; d = q - real_of_int f
      in if d < 1 / 2 then f else if d > 1 / 2 then f + 1 else if even f then f else f + 1)"

text \<open>
  The result of an arithmetic operation of IEEE 754 binary64 whose exact value is \<open>x\<close>:
  the nearest number with a 53-bit significand (the nearest multiple of \<open>2 ^ -1074\<close> below
  \<open>2 ^ -1022\<close>), a tie going to the even significand. Values beyond the largest double,
  where the operation gives an infinity, are not modelled.
\<close>

definition to_double :: "real \<Rightarrow> real" where
  "to_double x =
     (if x = 0 then 0
      else let e = max (binary_exponent \<bar>x\<bar>) (- 1022); u = pow2 (e - 52)
           in real_of_int (round_even (x / u)) * u)"

subsection \<open>Strings\<close>

text \<open>The white space of \<open>\s\<close> and of \<open>trim\<close>, on code units below 256.\<close>

definition isSpace :: "char \<Rightarrow> bool" where
  "isSpace c = (c \<in> set [CHR 0x09, CHR 0x0A, CHR 0x0B, CHR 0x0C, CHR 0x0D, CHR 0x20, CHR 0xA0])"

definition trim :: "string \<Rightarrow> string" where
  "trim s = rev (dropWhile isSpace (rev (dropWhile isSpace s)))"

text \<open>\<open>s.split('\n')\<close>: the second argument is the piece being read, reversed.\<close>

fun split_lines :: "string \<Rightarrow> string \<Rightarrow> string list" where
  "split_lines [] cur = [rev cur]"
| "split_lines (c # cs) cur =
     (if c = CHR 0x0A then rev cur # split_lines cs [] else split_lines cs (c # cur))"

text \<open>
  \<open>s.split(/\s+/)\<close>: a maximal run of white space separates two pieces, so a string that
  begins or ends with white space has an empty first or last piece. The flag says that
  the previous character belonged to a separator.
\<close>

fun split_ws :: "string \<Rightarrow> string \<Rightarrow> bool \<Rightarrow> string list" where
  "split_ws [] cur sep = [rev cur]"
| "split_ws (c # cs) cur sep =
     (if isSpace c then (if sep then split_ws cs cur True else rev cur # split_ws cs [] True)
      else split_ws cs (c # cur) False)"

definition split_space :: "string \<Rightarrow> string list" where
  "split_space s = split_ws s [] False"

definition startsWith :: "string \<Rightarrow> string \<Rightarrow> bool" where
  "startsWith s p = (take (length p) s = p)"

text \<open>\<open>s.replace(c, '')\<close> with a one-character pattern: the first occurrence goes.\<close>

fun remove_first :: "char \<Rightarrow> string \<Rightarrow> string" where
  "remove_first p [] = []"
| "remove_first p (c # cs) = (if c = p then cs else c # remove_first p cs)"

text \<open>\<open>xs[i]\<close>: \<open>undefined\<close> (\<open>None\<close>) out of range.\<close>

definition at_index :: "'a list \<Rightarrow> nat \<Rightarrow> 'a option" where
  "at_index xs i = (if i < length xs then Some (xs ! i) else None)"

text \<open>\<open>xs.slice(a, b)\<close> for \<open>0 \<le> a \<le> b\<close>.\<close>

definition slice :: "nat \<Rightarrow> nat \<Rightarrow> 'a list \<Rightarrow> 'a list" where
  "slice a b xs = take (b - a) (drop a xs)"

subsection \<open>parseInt\<close>

definition digitVal :: "char \<Rightarrow> nat option" where
  "digitVal c =
     (let n = (of_char c :: nat) in
      if 48 \<le> n \<and> n \<le> 57 then Some (n - 48)
      else if 97 \<le> n \<and> n \<le> 122 then Some (n - 87)
      else if 65 \<le> n \<and> n \<le> 90 then Some (n - 55)
      else None)"

fun digitsPrefix :: "nat \<Rightarrow> string \<Rightarrow> nat list" where
  "digitsPrefix R [] = []"
| "digitsPrefix R (c # cs) =
     (case digitVal c of
        Some d \<Rightarrow> (if d < R then d # digitsPrefix R cs else [])
      | None \<Rightarrow> [])"

text \<open>
  \<open>parseInt(x)\<close> with no radix: \<open>undefined\<close> is first turned into the string
  \<open>undefined\<close>; leading white space is skipped, a sign is read, the prefix \<open>0x\<close> selects
  radix 16, and the longest prefix of digits is the value; with no digit the result is
  \<open>NaN\<close>.
\<close>

definition parseInt :: "string option \<Rightarrow> jsnum" where
  "parseInt arg =
     (let s = dropWhile isSpace (case arg of None \<Rightarrow> ''undefined'' | Some t \<Rightarrow> t);
          neg = startsWith s ''-'';
          s1 = (if startsWith s ''-'' \<or> startsWith s ''+'' then drop 1 s else s);
          hex = (startsWith s1 ''0x'' \<or> startsWith s1 ''0X'');
          R = (if hex then 16 else 10);
          ds = digitsPrefix R (if hex then drop 2 s1 else s1);
          n = foldl (\<lambda>a d. a * R + d) 0 ds
      in if ds = [] then None
         else Some (if neg then - real n else real n))"

section \<open>The CPU collector\<close>

text \<open>The object \<open>{ total, idle, iowait }\<close> kept in \<open>lastCpuUsage\<close>.\<close>

record cpu_sample =
  total :: jsnum
  idle :: jsnum
  iowait :: jsnum

text \<open>The module variables \<open>lastCpuUsage\<close> and \<open>lastMeasureTime\<close>; \<open>None\<close> is \<open>null\<close>.\<close>

record cpu_state =
  lastCpuUsage :: "cpu_sample option"
  lastMeasureTime :: "int option"

definition cpu_init :: cpu_state where
  "cpu_init = \<lparr>lastCpuUsage = None, lastMeasureTime = None\<rparr>"

text \<open>One entry of \<open>os.cpus()\<close>: the times are millisecond counts.\<close>

record cpu_times =
  times_user :: nat
  times_nice :: nat
  times_sys :: nat
  times_idle :: nat
  times_irq :: nat

record os_cpu =
  cpu_model :: string
  cpu_speed :: nat
  cpu_times :: cpu_times

text \<open>
  What one call reads from outside: \<open>os.platform()\<close>, \<open>os.loadavg()\<close>, the outcome of
  \<open>fs.readFileSync('/proc/stat', 'utf8')\<close> (\<open>Inl\<close> the message of the exception),
  \<open>Date.now()\<close> and the outcome of \<open>os.cpus()\<close>.
\<close>

record cpu_env =
  os_platform :: string
  os_loadavg :: "real list"
  read_proc_stat :: "string + string"
  date_now :: int
  os_cpus :: "string + os_cpu list"

text \<open>\<open>loadavg[0] * 10\<close>.\<close>

definition load_estimate :: "cpu_env \<Rightarrow> jsnum" where
  "load_estimate env = js_mul (at_index (os_loadavg env) 0) (Some 10)"

text \<open>A module variable is truthy when it is not \<open>null\<close>, and a number when it is not 0.\<close>

definition has_prior :: "cpu_state \<Rightarrow> bool" where
  "has_prior st =
     (lastCpuUsage st \<noteq> None \<and> (case lastMeasureTime st of None \<Rightarrow> False | Some t \<Rightarrow> t \<noteq> 0))"

text \<open>
  \<open>totalDiff > 0 ? ((totalDiff - idleDiff) / totalDiff) * 100 : 0\<close>: the difference, the
  quotient and the product are each rounded to a double.
\<close>

definition delta_usage :: "jsnum \<Rightarrow> jsnum \<Rightarrow> jsnum" where
  "delta_usage totalDiff idleDiff =
     (case totalDiff of
        None \<Rightarrow> Some 0
      | Some td \<Rightarrow>
          if td > 0
          then map_option (\<lambda>idd. to_double (to_double (to_double (td - idd) / td) * 100)) idleDiff
          else Some 0)"

definition calculateCpuUsage :: "cpu_env \<Rightarrow> cpu_state \<Rightarrow> jsnum \<times> cpu_state" where
  "calculateCpuUsage env st =
     (if os_platform env \<noteq> ''linux'' then (load_estimate env, st)
      else
        case read_proc_stat env of
          Inl err \<Rightarrow> (Math_min (Some 100) (load_estimate env), st)
        | Inr cpuInfo \<Rightarrow>
            (case at_index (split_lines (trim cpuInfo) []) 0 of
               None \<Rightarrow> (Math_min (Some 100) (load_estimate env), st)
             | Some line0 \<Rightarrow>
                 let cpuLine = split_space line0;
                     idle' = parseInt (at_index cpuLine 4);
                     iowait' = or_zero (parseInt (at_index cpuLine 5));
                     total' = foldl (\<lambda>sum time. js_add sum (parseInt (Some time))) (Some 0)
                                (slice 1 8 cpuLine);
                     currentTime = date_now env;
                     st' = \<lparr>lastCpuUsage = Some \<lparr>total = total', idle = idle', iowait = iowait'\<rparr>,
                            lastMeasureTime = Some currentTime\<rparr>
                 in
                   if has_prior st then
                     (case lastCpuUsage st of
                        None \<Rightarrow> (Math_min (Some 100) (load_estimate env), st')
                      | Some lastS \<Rightarrow>
                          let totalDiff = js_sub total' (total lastS);
                              idleDiff = js_sub (js_add idle' iowait')
                                           (js_add (idle lastS) (iowait lastS));
                              usage = delta_usage totalDiff idleDiff
                          in (Math_max (Some 0) (Math_min (Some 100) usage), st'))
                   else (Math_min (Some 100) (load_estimate env), st')))"

text \<open>One element of \<open>coreUsage\<close>: \<open>{ core, usage }\<close>.\<close>

record core_usage =
  core :: nat
  usage :: real

text \<open>\<open>Object.values(cpu.times).reduce((acc, time) => acc + time, 0)\<close>.\<close>

definition times_total :: "cpu_times \<Rightarrow> real" where
  "times_total t =
     real (times_user t) + real (times_nice t) + real (times_sys t) + real (times_idle t)
       + real (times_irq t)"

definition coreUsagePercent :: "os_cpu \<Rightarrow> real" where
  "coreUsagePercent cpu =
     (let total' = times_total (cpu_times cpu);
          idle' = real (times_idle (cpu_times cpu))
      in if total' > 0 then ((total' - idle') / total') * 100 else 0)"

definition core_entry :: "nat \<Rightarrow> os_cpu \<Rightarrow> core_usage" where
  "core_entry index cpu =
     \<lparr>core = index, usage = roundFixed 2 (min 100 (coreUsagePercent cpu))\<rparr>"

text \<open>The object returned on success.\<close>

record cpu_info =
  cpu_usage :: jsnum
  cpu_loadavg :: "real list"
  cores :: nat
  model :: string
  speed :: nat
  coreUsage :: "core_usage list"

text \<open>
  The result of \<open>collectCpuInfo\<close>: the object above, or the object of the \<open>catch\<close> block,
  \<open>{ error, message, usage: 0, loadavg: [0, 0, 0], cores: 0 }\<close>, given by its \<open>error\<close>
  and \<open>message\<close>.
\<close>

datatype cpu_result = CpuInfo cpu_info | CpuError string string

definition collectCpuInfo :: "cpu_env \<Rightarrow> cpu_state \<Rightarrow> cpu_result \<times> cpu_state" where
  "collectCpuInfo env st =
     (case os_cpus env of
        Inl msg \<Rightarrow> (CpuError ''Failed to collect CPU information'' msg, st)
      | Inr cpus \<Rightarrow>
          let loadavg = os_loadavg env;
              (usage0, st') = calculateCpuUsage env st;
              coreUsage' = map (\<lambda>(index, cpu). core_entry index cpu) (enumerate 0 cpus);
              usage1 = (if usage0 = Some 0 \<and> length coreUsage' > 0
                        then Some (foldl (\<lambda>sum c. sum + usage c) 0 coreUsage'
                                     / real (length coreUsage'))
                        else usage0)
          in (CpuInfo \<lparr>cpu_usage = parseFloat_toFixed 2 usage1,
                       cpu_loadavg = map (roundFixed 3) loadavg,
                       cores = length cpus,
                       model = (case at_index cpus 0 of Some c \<Rightarrow> cpu_model c | None \<Rightarrow> ''Unknown''),
                       speed = (case at_index cpus 0 of Some c \<Rightarrow> cpu_speed c | None \<Rightarrow> 0),
                       coreUsage = coreUsage'\<rparr>, st'))"

text \<open>
  The specification's formula for the delta branch: \<open>100 * (1 - idleDelta / totalDelta)\<close>
  clamped to \<open>[0, 100]\<close>.
\<close>

definition spec_delta_usage :: "real \<Rightarrow> real \<Rightarrow> real" where
  "spec_delta_usage idleDelta totalDelta = max 0 (min 100 (100 * (1 - idleDelta / totalDelta)))"

subsection \<open>Sample runs of the CPU collector\<close>

text \<open>A Linux host whose \<open>/proc/stat\<close> shows \<open>idle = 100\<close> of \<open>total = 1000\<close> ticks.\<close>

definition env_first :: cpu_env where
  "env_first = \<lparr>os_platform = ''linux'', os_loadavg = [1 / 2, 1 / 4, 1 / 8],
     read_proc_stat = Inr ''cpu  900 0 0 100 0 0 0 0 0 0'', date_now = 1700000000000,
     os_cpus = Inr []\<rparr>"

text \<open>The next reading: \<open>idle = 150\<close> of \<open>total = 1100\<close>.\<close>

definition env_second :: cpu_env where
  "env_second = env_first\<lparr>read_proc_stat := Inr ''cpu  950 0 0 150 0 0 0 0 0 0'',
     date_now := 1700000005000\<rparr>"

text \<open>A reading whose counters went back: \<open>idle = 100\<close> of \<open>total = 900\<close>.\<close>

definition env_backwards :: cpu_env where
  "env_backwards = env_first\<lparr>read_proc_stat := Inr ''cpu  800 0 0 100 0 0 0 0 0 0'',
     date_now := 1700000005000\<rparr>"

text \<open>
  A reading \<open>idle = 237\<close> of \<open>total = 1160\<close>: against the state below the deltas are 137
  and 160.
\<close>

definition env_rounded :: cpu_env where
  "env_rounded = env_first\<lparr>read_proc_stat := Inr ''cpu  923 0 0 237 0 0 0 0 0 0'',
     date_now := 1700000005000\<rparr>"

text \<open>The state after one reading \<open>idle = 100\<close>, \<open>total = 1000\<close>.\<close>

definition st_seeded :: cpu_state where
  "st_seeded = \<lparr>lastCpuUsage = Some \<lparr>total = Some 1000, idle = Some 100, iowait = Some 0\<rparr>,
     lastMeasureTime = Some 1700000000000\<rparr>"

text \<open>\<open>/proc/stat\<close> cannot be read.\<close>

definition env_unreadable :: cpu_env where
  "env_unreadable = env_first\<lparr>read_proc_stat := Inl ''EACCES: permission denied, open /proc/stat''\<rparr>"

text \<open>A host that is not Linux, with a one-minute load average of 12.5.\<close>

definition env_darwin :: cpu_env where
  "env_darwin = \<lparr>os_platform = ''darwin'', os_loadavg = [25 / 2, 10, 8],
     read_proc_stat = Inl ''ENOENT: no such file or directory, open /proc/stat'',
     date_now = 1700000000000, os_cpus = Inr []\<rparr>"

text \<open>Two cores: one idle for 300 of 1000 ms, one that has not run.\<close>

definition two_cpus :: "os_cpu list" where
  "two_cpus =
     [\<lparr>cpu_model = ''Cortex-A53'', cpu_speed = 1400,
       cpu_times = \<lparr>times_user = 500, times_nice = 0, times_sys = 200, times_idle = 300, times_irq = 0\<rparr>\<rparr>,
      \<lparr>cpu_model = ''Cortex-A53'', cpu_speed = 1400,
       cpu_times = \<lparr>times_user = 0, times_nice = 0, times_sys = 0, times_idle = 0, times_irq = 0\<rparr>\<rparr>]"

text \<open>The second reading on a host with the two cores above.\<close>

definition env_two :: cpu_env where
  "env_two = env_second\<lparr>os_cpus := Inr two_cpus\<rparr>"

section \<open>Values handed to the transport layer\<close>

text \<open>
  The payloads of the collectors are JavaScript values: \<open>undefined\<close>, \<open>null\<close>, booleans,
  numbers, strings, arrays and objects (the properties in insertion order).
\<close>

datatype json =
    JUndefined
  | JNull
  | JBool bool
  | JNum jsnum
  | JStr string
  | JArr "json list"
  | JObj "(string \<times> json) list"

text \<open>Truthiness: \<open>undefined\<close>, \<open>null\<close>, \<open>false\<close>, \<open>0\<close>, \<open>NaN\<close> and the empty string are falsy.\<close>

fun truthy :: "json \<Rightarrow> bool" where
  "truthy JUndefined = False"
| "truthy JNull = False"
| "truthy (JBool b) = b"
| "truthy (JNum n) = (case n of None \<Rightarrow> False | Some x \<Rightarrow> x \<noteq> 0)"
| "truthy (JStr s) = (s \<noteq> [])"
| "truthy (JArr xs) = True"
| "truthy (JObj kvs) = True"

text \<open>
  \<open>v?.key\<close> for a key that is not a built-in property: the property of an object,
  \<open>undefined\<close> on every other value (an array, a string, a number, \<open>null\<close>).
\<close>

fun get_prop :: "json \<Rightarrow> string \<Rightarrow> json" where
  "get_prop (JObj kvs) k = (case map_of kvs k of Some v \<Rightarrow> v | None \<Rightarrow> JUndefined)"
| "get_prop v k = JUndefined"

text \<open>
  \<open>obj[k] = v\<close>: a property that exists keeps its place (the order of integer-like
  keys is not modelled).
\<close>

fun set_prop :: "(string \<times> json) list \<Rightarrow> string \<Rightarrow> json \<Rightarrow> (string \<times> json) list" where
  "set_prop [] k v = [(k, v)]"
| "set_prop ((k', v') # kvs) k v = (if k' = k then (k, v) # kvs else (k', v') # set_prop kvs k v)"

text \<open>
  The built-ins of the runtime whose results are text or come from text: \<open>JSON.parse\<close>
  (\<open>Inl\<close> the message of the \<open>SyntaxError\<close>), \<open>Number.prototype.toFixed\<close>, the conversion of
  a value to a number, the printing of a number, and the message of the \<open>TypeError\<close>
  raised by reading a property of \<open>null\<close>. The collectors are modelled for every such
  runtime.
\<close>

record runtime =
  JSON_parse :: "string \<Rightarrow> string + json"
  toFixed :: "nat \<Rightarrow> jsnum \<Rightarrow> string"
  toNumber :: "json \<Rightarrow> jsnum"
  numToString :: "jsnum \<Rightarrow> string"
  nullAccessMessage :: string

fun join_with :: "string \<Rightarrow> string list \<Rightarrow> string" where
  "join_with sep [] = []"
| "join_with sep [x] = x"
| "join_with sep (x # y # ys) = x @ sep @ join_with sep (y # ys)"

text \<open>The string a template literal puts in place of \<open>${v}\<close>.\<close>

fun js_String :: "runtime \<Rightarrow> json \<Rightarrow> string" where
  "js_String rt JUndefined = ''undefined''"
| "js_String rt JNull = ''null''"
| "js_String rt (JBool b) = (if b then ''true'' else ''false'')"
| "js_String rt (JNum n) = numToString rt n"
| "js_String rt (JStr s) = s"
| "js_String rt (JArr xs) =
     join_with '','' (map (\<lambda>x. if x = JUndefined \<or> x = JNull then [] else js_String rt x) xs)"
| "js_String rt (JObj kvs) = ''[object Object]''"

text \<open>
  What a collector does outside the process: a command run by \<open>execSync\<close>, a file read by
  \<open>readFileSync\<close>, a path tested by \<open>existsSync\<close>, a directory listed by \<open>readdirSync\<close>.
\<close>

datatype ext_call = Exec string | ReadFile string | Exists string | ReadDir string

text \<open>
  The world one call sees: \<open>process.platform\<close>, \<open>Date.now()\<close>,
  \<open>new Date().toISOString()\<close>, and the outcome of each external call (\<open>Inl\<close> the message
  of the exception it throws).
\<close>

record sys_env =
  process_platform :: string
  clock :: int
  iso_time :: string
  execSync :: "string \<Rightarrow> string + string"
  readFileSync :: "string \<Rightarrow> string + string"
  existsSync :: "string \<Rightarrow> bool"
  readdirSync :: "string \<Rightarrow> string + string list"

text \<open>
  The test \<open>if (cache && (now - cacheTime) < TTL) return cache\<close> that opens the disk,
  network and Android collectors: the cached value when it is served.
\<close>

definition cache_hit :: "json option \<Rightarrow> int \<Rightarrow> int \<Rightarrow> int \<Rightarrow> json option" where
  "cache_hit cache cacheTime now ttl =
     (case cache of
        None \<Rightarrow> None
      | Some cached \<Rightarrow> if truthy cached \<and> now - cacheTime < ttl then Some cached else None)"

section \<open>The disk collector\<close>

definition DISK_CACHE_TTL :: int where
  "DISK_CACHE_TTL = 30000"

text \<open>The module variables \<open>diskCache\<close> (\<open>None\<close> is \<open>null\<close>) and \<open>diskCacheTime\<close>.\<close>

record disk_state =
  diskCache :: "json option"
  diskCacheTime :: int

definition disk_init :: disk_state where
  "disk_init = \<lparr>diskCache = None, diskCacheTime = 0\<rparr>"

text \<open>
  The loop of \<open>formatSize\<close>: divide by 1024 while the size is at least 1024 and a larger
  unit is left. \<open>NaN >= 1024\<close> is false.
\<close>

function formatSize_loop :: "real \<Rightarrow> nat \<Rightarrow> real \<times> nat" where
  "formatSize_loop sz unitIndex =
     (if sz \<ge> 1024 \<and> unitIndex < 4 then formatSize_loop (sz / 1024) (unitIndex + 1)
      else (sz, unitIndex))"
  by pat_completeness auto
termination
  by (relation "measure (\<lambda>(sz, unitIndex). 4 - unitIndex)") auto

definition units :: "string list" where
  "units = [''B'', ''KB'', ''MB'', ''GB'', ''TB'']"

definition formatSize :: "runtime \<Rightarrow> jsnum \<Rightarrow> string" where
  "formatSize rt bytes =
     (case bytes of
        None \<Rightarrow> toFixed rt 1 None @ units ! 0
      | Some b \<Rightarrow> (let (sz, unitIndex) = formatSize_loop b 0
                   in toFixed rt 1 (Some sz) @ units ! unitIndex))"

text \<open>One element of the array built by \<open>parseDfOutput\<close>.\<close>

record disk_volume =
  filesystem :: string
  size_text :: string
  used_text :: string
  available_text :: string
  usage_text :: string
  usagePercent :: jsnum
  mountpoint :: string
  sizeBytes :: jsnum
  usedBytes :: jsnum
  availableBytes :: jsnum

definition disk_to_json :: "disk_volume \<Rightarrow> json" where
  "disk_to_json d =
     JObj [(''filesystem'', JStr (filesystem d)), (''size'', JStr (size_text d)),
           (''used'', JStr (used_text d)), (''available'', JStr (available_text d)),
           (''usage'', JStr (usage_text d)), (''usagePercent'', JNum (usagePercent d)),
           (''mountpoint'', JStr (mountpoint d)), (''sizeBytes'', JNum (sizeBytes d)),
           (''usedBytes'', JNum (usedBytes d)), (''availableBytes'', JNum (availableBytes d))]"

text \<open>The test \<open>Skip special filesystems\<close> of \<open>parseDfOutput\<close>.\<close>

definition skipped :: "string \<Rightarrow> string \<Rightarrow> bool" where
  "skipped fs mp =
     (startsWith fs ''tmpfs'' \<or> startsWith fs ''udev'' \<or> startsWith fs ''/dev/loop''
      \<or> startsWith mp ''/snap/'' \<or> startsWith mp ''/sys'' \<or> startsWith mp ''/proc''
      \<or> startsWith mp ''/run'')"

text \<open>The body of the loop over the lines: the disks pushed for one line.\<close>

definition parse_df_line :: "runtime \<Rightarrow> string \<Rightarrow> disk_volume list" where
  "parse_df_line rt line =
     (case split_space (trim line) of
        fs # sz # us # av # pct # mp # rest \<Rightarrow>
          if skipped fs mp then []
          else [\<lparr>filesystem = fs,
                 size_text = formatSize rt (js_mul (parseInt (Some sz)) (Some 1024)),
                 used_text = formatSize rt (js_mul (parseInt (Some us)) (Some 1024)),
                 available_text = formatSize rt (js_mul (parseInt (Some av)) (Some 1024)),
                 usage_text = pct,
                 usagePercent = parseInt (Some (remove_first (CHR ''%'') pct)),
                 mountpoint = mp,
                 sizeBytes = js_mul (parseInt (Some sz)) (Some 1024),
                 usedBytes = js_mul (parseInt (Some us)) (Some 1024),
                 availableBytes = js_mul (parseInt (Some av)) (Some 1024)\<rparr>]
      | _ \<Rightarrow> [])"

text \<open>The loop: \<open>disks\<close> grows by \<open>push\<close>, line after line.\<close>

fun parse_df_lines :: "runtime \<Rightarrow> string list \<Rightarrow> disk_volume list \<Rightarrow> disk_volume list" where
  "parse_df_lines rt [] disks = disks"
| "parse_df_lines rt (line # rest) disks = parse_df_lines rt rest (disks @ parse_df_line rt line)"

definition parseDfOutput :: "runtime \<Rightarrow> string \<Rightarrow> disk_volume list" where
  "parseDfOutput rt output = parse_df_lines rt (drop 1 (split_lines (trim output) [])) []"

text \<open>The array returned by a \<open>catch\<close> block of \<open>collectDiskInfo\<close>.\<close>

definition disk_error :: "string \<Rightarrow> string \<Rightarrow> json" where
  "disk_error e msg = JArr [JObj [(''error'', JStr e), (''message'', JStr msg)]]"

text \<open>
  \<open>collectDiskInfo\<close>: the value returned, the module variables after the call, and the
  external calls made, in order. The loop over the lines of the \<open>wmic\<close> output (Windows)
  compares a string with a number and prints numbers; it is the parameter \<open>wmic_disks\<close>.
\<close>

definition collectDiskInfo ::
  "runtime \<Rightarrow> (string \<Rightarrow> json list) \<Rightarrow> sys_env \<Rightarrow> disk_state \<Rightarrow> json \<times> disk_state \<times> ext_call list"
where
  "collectDiskInfo rt wmic_disks env st =
     (let now = clock env in
      case cache_hit (diskCache st) (diskCacheTime st) now DISK_CACHE_TTL of
        Some cached \<Rightarrow> (cached, st, [])
      | None \<Rightarrow>
          if process_platform env = ''win32'' then
            (case execSync env ''wmic logicaldisk get size,freespace,caption'' of
               Inr output \<Rightarrow>
                 let disks = JArr (wmic_disks output)
                 in (disks, \<lparr>diskCache = Some disks, diskCacheTime = now\<rparr>,
                     [Exec ''wmic logicaldisk get size,freespace,caption''])
             | Inl msg \<Rightarrow>
                 (disk_error ''Failed to collect Windows disk information'' msg, st,
                  [Exec ''wmic logicaldisk get size,freespace,caption'']))
          else
            (case execSync env ''df -kP'' of
               Inr output \<Rightarrow>
                 let disks = JArr (map disk_to_json (parseDfOutput rt output))
                 in (disks, \<lparr>diskCache = Some disks, diskCacheTime = now\<rparr>, [Exec ''df -kP''])
             | Inl msg \<Rightarrow>
                 (disk_error ''Failed to collect disk information'' msg, st, [Exec ''df -kP''])))"

section \<open>The Android collector\<close>

definition ANDROID_CACHE_TTL :: int where
  "ANDROID_CACHE_TTL = 5000"

record android_state =
  androidCache :: "json option"
  androidCacheTime :: int

definition android_init :: android_state where
  "android_init = \<lparr>androidCache = None, androidCacheTime = 0\<rparr>"

text \<open>Each function below returns its value and the external calls it made, in order.\<close>

definition isTermuxApiAvailable :: "sys_env \<Rightarrow> bool \<times> ext_call list" where
  "isTermuxApiAvailable env =
     (case execSync env ''which termux-battery-status'' of
        Inr out \<Rightarrow> (True, [Exec ''which termux-battery-status''])
      | Inl msg \<Rightarrow> (False, [Exec ''which termux-battery-status'']))"

definition battery_error :: "string \<Rightarrow> json" where
  "battery_error msg =
     JObj [(''error'', JStr ''Failed to get battery information''), (''message'', JStr msg)]"

text \<open>\<open>x ? (x / k).toFixed(d) : null\<close>.\<close>

definition scaled_text :: "runtime \<Rightarrow> json \<Rightarrow> real \<Rightarrow> nat \<Rightarrow> json" where
  "scaled_text rt x k d =
     (if truthy x then JStr (toFixed rt d (map_option (\<lambda>v. v / k) (toNumber rt x))) else JNull)"

definition getBatteryInfo :: "runtime \<Rightarrow> sys_env \<Rightarrow> json \<times> ext_call list" where
  "getBatteryInfo rt env =
     (let (avail, c1) = isTermuxApiAvailable env in
      if \<not> avail then
        (JObj [(''error'', JStr ''Termux API not available''),
               (''message'', JStr ''Install termux-api package and Termux:API app'')], c1)
      else
        case execSync env ''termux-battery-status'' of
          Inl msg \<Rightarrow> (battery_error msg, c1 @ [Exec ''termux-battery-status''])
        | Inr output \<Rightarrow>
            (case JSON_parse rt output of
               Inl msg \<Rightarrow> (battery_error msg, c1 @ [Exec ''termux-battery-status''])
             | Inr batteryData \<Rightarrow>
                 if batteryData = JNull then
                   (battery_error (nullAccessMessage rt), c1 @ [Exec ''termux-battery-status''])
                 else
                   (JObj [(''level'', get_prop batteryData ''percentage''),
                          (''status'', get_prop batteryData ''status''),
                          (''health'', get_prop batteryData ''health''),
                          (''plugged'', get_prop batteryData ''plugged''),
                          (''temperature'', get_prop batteryData ''temperature''),
                          (''voltage'', get_prop batteryData ''voltage''),
                          (''current'', (if truthy (get_prop batteryData ''current'')
                                         then get_prop batteryData ''current'' else JNum (Some 0))),
                          (''temperatureCelsius'',
                             scaled_text rt (get_prop batteryData ''temperature'') 10 1),
                          (''voltageVolts'',
                             scaled_text rt (get_prop batteryData ''voltage'') 1000 2)],
                    c1 @ [Exec ''termux-battery-status''])))"

text \<open>
  The body of the loop over the entries of \<open>/sys/class/thermal\<close>: the object
  \<open>thermalData\<close> after the entry, and the calls made. An exception inside is caught and
  the entry is skipped.
\<close>

definition thermal_zone :: "runtime \<Rightarrow> sys_env \<Rightarrow> string \<Rightarrow> (string \<times> json) list
    \<Rightarrow> (string \<times> json) list \<times> ext_call list" where
  "thermal_zone rt env zone thermalData =
     (if \<not> startsWith zone ''thermal_zone'' then (thermalData, [])
      else
        let tempPath = ''/sys/class/thermal/'' @ zone @ ''/temp'';
            typePath = ''/sys/class/thermal/'' @ zone @ ''/type''
        in
          if \<not> existsSync env tempPath then (thermalData, [Exists tempPath])
          else if \<not> existsSync env typePath then (thermalData, [Exists tempPath, Exists typePath])
          else
            case readFileSync env tempPath of
              Inl msg \<Rightarrow> (thermalData, [Exists tempPath, Exists typePath, ReadFile tempPath])
            | Inr tempText \<Rightarrow>
                (case readFileSync env typePath of
                   Inl msg \<Rightarrow>
                     (thermalData,
                      [Exists tempPath, Exists typePath, ReadFile tempPath, ReadFile typePath])
                 | Inr typeText \<Rightarrow>
                     let temp = parseInt (Some (trim tempText));
                         celsius = map_option (\<lambda>t. t / 1000) temp
                     in (set_prop thermalData (trim typeText)
                           (JObj [(''zone'', JStr zone), (''temperature'', JNum temp),
                                  (''temperatureCelsius'', JStr (toFixed rt 1 celsius)),
                                  (''temperatureFahrenheit'',
                                     JStr (toFixed rt 1 (map_option (\<lambda>c. c * 9 / 5 + 32) celsius)))]),
                         [Exists tempPath, Exists typePath, ReadFile tempPath, ReadFile typePath])))"

fun thermal_zones :: "runtime \<Rightarrow> sys_env \<Rightarrow> string list \<Rightarrow> (string \<times> json) list
    \<Rightarrow> ext_call list \<Rightarrow> (string \<times> json) list \<times> ext_call list" where
  "thermal_zones rt env [] thermalData calls = (thermalData, calls)"
| "thermal_zones rt env (zone # zones) thermalData calls =
     (let (thermalData', c) = thermal_zone rt env zone thermalData
      in thermal_zones rt env zones thermalData' (calls @ c))"

definition getThermalInfo :: "runtime \<Rightarrow> sys_env \<Rightarrow> json \<times> ext_call list" where
  "getThermalInfo rt env =
     (if existsSync env ''/sys/class/thermal'' then
        (case readdirSync env ''/sys/class/thermal'' of
           Inl msg \<Rightarrow>
             (JObj [(''error'', JStr ''Failed to get thermal information''), (''message'', JStr msg),
                    (''zones'', JObj []), (''count'', JNum (Some 0))],
              [Exists ''/sys/class/thermal'', ReadDir ''/sys/class/thermal''])
         | Inr thermalZones \<Rightarrow>
             let (thermalData, calls) =
                   thermal_zones rt env thermalZones []
                     [Exists ''/sys/class/thermal'', ReadDir ''/sys/class/thermal'']
             in if length thermalData = 0 then
                  (let (avail, c) = isTermuxApiAvailable env in
                   if avail then
                     (JObj [(''message'', JStr ''Thermal sensors not accessible via standard methods''),
                            (''availableZones'', JNum (Some 0))], calls @ c)
                   else (JObj [(''zones'', JObj thermalData), (''count'', JNum (Some 0))], calls @ c))
                else
                  (JObj [(''zones'', JObj thermalData),
                         (''count'', JNum (Some (real (length thermalData))))], calls))
      else
        (let (avail, c) = isTermuxApiAvailable env in
         if avail then
           (JObj [(''message'', JStr ''Thermal sensors not accessible via standard methods''),
                  (''availableZones'', JNum (Some 0))], Exists ''/sys/class/thermal'' # c)
         else (JObj [(''zones'', JObj []), (''count'', JNum (Some 0))],
               Exists ''/sys/class/thermal'' # c)))"

text \<open>The three \<open>getprop\<close> calls of \<open>getDeviceInfo\<close>: the first that throws ends the block.\<close>

definition device_props :: "sys_env \<Rightarrow> (string \<times> json) list \<times> ext_call list" where
  "device_props env =
     (case execSync env ''getprop ro.build.version.release'' of
        Inl msg \<Rightarrow> ([], [Exec ''getprop ro.build.version.release''])
      | Inr androidVersion \<Rightarrow>
          (case execSync env ''getprop ro.product.model'' of
             Inl msg \<Rightarrow>
               ([], [Exec ''getprop ro.build.version.release'', Exec ''getprop ro.product.model''])
           | Inr deviceModel \<Rightarrow>
               (case execSync env ''getprop ro.product.brand'' of
                  Inl msg \<Rightarrow>
                    ([], [Exec ''getprop ro.build.version.release'', Exec ''getprop ro.product.model'',
                          Exec ''getprop ro.product.brand''])
                | Inr deviceBrand \<Rightarrow>
                    ([(''androidVersion'', JStr (trim androidVersion)),
                      (''model'', JStr (trim deviceModel)),
                      (''brand'', JStr (trim deviceBrand))],
                     [Exec ''getprop ro.build.version.release'', Exec ''getprop ro.product.model'',
                      Exec ''getprop ro.product.brand'']))))"

definition getDeviceInfo :: "sys_env \<Rightarrow> json \<times> ext_call list" where
  "getDeviceInfo env =
     (let (avail, c1) = isTermuxApiAvailable env;
          (deviceInfo, c2) = (if avail then device_props env else ([], []))
      in if existsSync env ''/proc/version'' then
           (case readFileSync env ''/proc/version'' of
              Inl msg \<Rightarrow> (JObj deviceInfo, c1 @ c2 @ [Exists ''/proc/version'', ReadFile ''/proc/version''])
            | Inr v \<Rightarrow>
                (JObj (set_prop deviceInfo ''kernelVersion'' (JStr (trim v))),
                 c1 @ c2 @ [Exists ''/proc/version'', ReadFile ''/proc/version'']))
         else (JObj deviceInfo, c1 @ c2 @ [Exists ''/proc/version'']))"

text \<open>
  \<open>collectAndroidInfo\<close>: the value returned, the module variables after the call, and the
  external calls made. The three sub-probes catch every exception, so each promise given
  to \<open>Promise.allSettled\<close> is fulfilled and nothing in the \<open>try\<close> block throws; the outer
  \<open>catch\<close> block is not reached.
\<close>

definition collectAndroidInfo ::
  "runtime \<Rightarrow> sys_env \<Rightarrow> android_state \<Rightarrow> json \<times> android_state \<times> ext_call list" where
  "collectAndroidInfo rt env st =
     (let now = clock env in
      case cache_hit (androidCache st) (androidCacheTime st) now ANDROID_CACHE_TTL of
        Some cached \<Rightarrow> (cached, st, [])
      | None \<Rightarrow>
          if process_platform env \<noteq> ''linux'' then
            (JObj [(''available'', JBool False),
                   (''reason'', JStr (''Android features not available on '' @ process_platform env))],
             st, [])
          else
            let (battery, c1) = getBatteryInfo rt env;
                (thermal, c2) = getThermalInfo rt env;
                (device, c3) = getDeviceInfo env;
                (termuxApi, c4) = isTermuxApiAvailable env;
                result = JObj [(''available'', JBool True), (''termuxApi'', JBool termuxApi),
                               (''battery'', battery), (''thermal'', thermal), (''device'', device),
                               (''timestamp'', JStr (iso_time env))]
            in (result, \<lparr>androidCache = Some result, androidCacheTime = now\<rparr>, c1 @ c2 @ c3 @ c4))"

text \<open>A run of calls, one per environment: the values returned and all calls made.\<close>

fun android_run :: "runtime \<Rightarrow> sys_env list \<Rightarrow> android_state \<Rightarrow> json list \<times> android_state \<times> ext_call list" where
  "android_run rt [] st = ([], st, [])"
| "android_run rt (env # envs) st =
     (let (v, st', c) = collectAndroidInfo rt env st;
          (vs, st'', cs) = android_run rt envs st'
      in (v # vs, st'', c @ cs))"

section \<open>The aggregator: GET /api/metrics\<close>

text \<open>An element of the array \<open>Promise.allSettled\<close> resolves to.\<close>

datatype settled = Fulfilled json | Rejected json

text \<open>
  \<open>r.status === 'fulfilled' ? r.value : { error: failure, message: r.reason?.message ||
  'Unknown error' }\<close>.
\<close>

definition slot_of :: "string \<Rightarrow> settled \<Rightarrow> json" where
  "slot_of failure r =
     (case r of
        Fulfilled v \<Rightarrow> v
      | Rejected reason \<Rightarrow>
          JObj [(''error'', JStr failure),
                (''message'', (if truthy (get_prop reason ''message'')
                               then get_prop reason ''message'' else JStr ''Unknown error''))])"

text \<open>The loop over \<open>Object.keys(metrics)\<close> that fills \<open>warnings\<close>.\<close>

fun scan_warnings :: "runtime \<Rightarrow> (string \<times> json) list \<Rightarrow> string list \<Rightarrow> string list \<Rightarrow> string list" where
  "scan_warnings rt metrics [] warnings = warnings"
| "scan_warnings rt metrics (key # keys) warnings =
     scan_warnings rt metrics keys
       (if key \<noteq> ''timestamp'' \<and> key \<noteq> ''collectionTimeMs''
           \<and> truthy (get_prop (get_prop (JObj metrics) key) ''error'')
        then warnings @ [key @ '': '' @ js_String rt (get_prop (get_prop (JObj metrics) key) ''error'')]
        else warnings)"

text \<open>What the loop adds for one slot: a warning when its \<open>error\<close> property is truthy.\<close>

definition slot_warning :: "runtime \<Rightarrow> string \<Rightarrow> json \<Rightarrow> string list" where
  "slot_warning rt key v =
     (if truthy (get_prop v ''error'') then [key @ '': '' @ js_String rt (get_prop v ''error'')]
      else [])"

text \<open>
  The handler, from the six settled results: \<open>startTime\<close> and \<open>endTime\<close> are the two
  readings of \<open>Date.now()\<close>, \<open>isoTime\<close> is \<open>new Date().toISOString()\<close>, \<open>server\<close> the object
  built from \<open>process\<close>. The value is the object given to \<open>res.json\<close>.
\<close>

definition metrics_handler ::
  "runtime \<Rightarrow> int \<Rightarrow> int \<Rightarrow> string \<Rightarrow> json \<Rightarrow> settled \<Rightarrow> settled \<Rightarrow> settled \<Rightarrow> settled \<Rightarrow> settled
     \<Rightarrow> settled \<Rightarrow> json" where
  "metrics_handler rt startTime endTime isoTime server host memory cpu disk network android =
     (let collectTime = endTime - startTime;
          metrics =
            [(''timestamp'', JStr isoTime),
             (''collectionTimeMs'', JNum (Some (real_of_int collectTime))),
             (''host'', slot_of ''Failed to collect host info'' host),
             (''memory'', slot_of ''Failed to collect memory info'' memory),
             (''cpu'', slot_of ''Failed to collect CPU info'' cpu),
             (''disk'', slot_of ''Failed to collect disk info'' disk),
             (''network'', slot_of ''Failed to collect network info'' network),
             (''android'', slot_of ''Failed to collect Android info'' android)];
          warnings = scan_warnings rt metrics (map fst metrics) []
      in JObj (metrics @
           [(''meta'',
             JObj [(''server'', server),
                   (''warnings'', (if length warnings > 0 then JArr (map JStr warnings) else JUndefined)),
                   (''status'', JStr (if length warnings = 0 then ''ok'' else ''partial''))])]))"

section \<open>The host and memory collectors\<close>

text \<open>The values \<open>collectHostInfo\<close> reads from \<open>os\<close> and \<open>process\<close>.\<close>

record host_values =
  os_hostname :: string
  os_platform_name :: string
  os_arch :: string
  os_release :: string
  os_type :: string
  os_uptime :: real
  process_version :: string
  cpu_count :: nat

text \<open>\<open>collectHostInfo\<close>, from the outcome of its reads (\<open>Inl\<close> the message of an exception).\<close>

definition collectHostInfo :: "string + host_values \<Rightarrow> json" where
  "collectHostInfo reads =
     (case reads of
        Inr h \<Rightarrow>
          JObj [(''hostname'', JStr (os_hostname h)), (''platform'', JStr (os_platform_name h)),
                (''arch'', JStr (os_arch h)), (''release'', JStr (os_release h)),
                (''type'', JStr (os_type h)),
                (''uptime'', JNum (Some (real_of_int \<lfloor>os_uptime h\<rfloor>))),
                (''nodeVersion'', JStr (process_version h)),
                (''cpuCount'', JNum (Some (real (cpu_count h))))]
      | Inl msg \<Rightarrow>
          JObj [(''error'', JStr ''Failed to collect host information''), (''message'', JStr msg)])"

text \<open>
  \<open>collectMemoryInfo\<close>, from the outcome of \<open>os.totalmem()\<close> and \<open>os.freemem()\<close>.
\<close>

definition collectMemoryInfo :: "runtime \<Rightarrow> string + real \<times> real \<Rightarrow> json" where
  "collectMemoryInfo rt reads =
     (case reads of
        Inr (totalMem, freeMem) \<Rightarrow>
          let usedMem = totalMem - freeMem
          in JObj [(''total'', JNum (Some totalMem)), (''used'', JNum (Some usedMem)),
                   (''free'', JNum (Some freeMem)),
                   (''usage'', (if totalMem > 0
                                then JStr (toFixed rt 2 (Some ((usedMem / totalMem) * 100)))
                                else JNum (Some 0))),
                   (''totalMB'', JStr (toFixed rt 2 (Some (totalMem / 1024 / 1024)))),
                   (''usedMB'', JStr (toFixed rt 2 (Some (usedMem / 1024 / 1024)))),
                   (''freeMB'', JStr (toFixed rt 2 (Some (freeMem / 1024 / 1024)))),
                   (''totalGB'', JStr (toFixed rt 2 (Some (totalMem / 1024 / 1024 / 1024)))),
                   (''usedGB'', JStr (toFixed rt 2 (Some (usedMem / 1024 / 1024 / 1024)))),
                   (''freeGB'', JStr (toFixed rt 2 (Some (freeMem / 1024 / 1024 / 1024))))]
      | Inl msg \<Rightarrow>
          JObj [(''error'', JStr ''Failed to collect memory information''), (''message'', JStr msg)])"

text \<open>The object \<open>collectCpuInfo\<close> resolves to.\<close>

definition cpu_to_json :: "cpu_result \<Rightarrow> json" where
  "cpu_to_json r =
     (case r of
        CpuInfo i \<Rightarrow>
          JObj [(''usage'', JNum (cpu_usage i)),
                (''loadavg'', JArr (map (\<lambda>l. JNum (Some l)) (cpu_loadavg i))),
                (''cores'', JNum (Some (real (cores i)))),
                (''model'', JStr (model i)),
                (''speed'', JNum (Some (real (speed i)))),
                (''coreUsage'',
                   JArr (map (\<lambda>c. JObj [(''core'', JNum (Some (real (core c)))),
                                         (''usage'', JNum (Some (usage c)))]) (coreUsage i)))]
      | CpuError e msg \<Rightarrow>
          JObj [(''error'', JStr e), (''message'', JStr msg), (''usage'', JNum (Some 0)),
                (''loadavg'', JArr [JNum (Some 0), JNum (Some 0), JNum (Some 0)]),
                (''cores'', JNum (Some 0))])"

section \<open>Sample inputs\<close>


text \<open>A runtime whose conversions all fail; the samples below do not depend on them.\<close>

definition sample_rt :: runtime where
  "sample_rt = \<lparr>JSON_parse = (\<lambda>s. Inl ''Unexpected end of JSON input''),
     toFixed = (\<lambda>d n. ''NaN''), toNumber = (\<lambda>v. None), numToString = (\<lambda>n. ''NaN''),
     nullAccessMessage = ''Cannot read properties of null''\<rparr>"

text \<open>A Linux host on which no command runs and no file exists.\<close>

definition env_df_fails :: sys_env where
  "env_df_fails = \<lparr>process_platform = ''linux'', clock = 1700000000000,
     iso_time = ''2023-11-14T22:13:20.000Z'',
     execSync = (\<lambda>cmd. Inl (''Command failed: '' @ cmd)),
     readFileSync = (\<lambda>path. Inl (''ENOENT: no such file or directory, open '' @ path)),
     existsSync = (\<lambda>path. False),
     readdirSync = (\<lambda>path. Inl (''ENOENT: no such file or directory, scandir '' @ path))\<rparr>"


text \<open>The same host, seen by a process whose platform is not \<open>linux\<close>.\<close>

definition env_darwin_sys :: sys_env where
  "env_darwin_sys = env_df_fails\<lparr>process_platform := ''darwin''\<rparr>"

text \<open>An output of \<open>df -kP\<close> with a \<open>tmpfs\<close> mount, an \<open>overlay\<close> mount and a mount under \<open>/run\<close>.\<close>

definition df_sample :: string where
  "df_sample = join_with [CHR 0x0A]
     [''Filesystem 1024-blocks Used Available Capacity Mounted on'',
      ''/dev/root 1000 400 600 40% /'',
      ''tmpfs 500 0 500 0% /dev/shm'',
      ''overlay 2000 100 1900 5% /var/lib/docker/overlay2/x/merged'',
      ''/dev/sda2 300 100 200 34% /run/media'']"

text \<open>Payloads of collectors that succeeded.\<close>

definition host_ok :: json where
  "host_ok = collectHostInfo (Inr \<lparr>os_hostname = ''tablet'', os_platform_name = ''linux'',
     os_arch = ''arm64'', os_release = ''4.19.0'', os_type = ''Linux'', os_uptime = 86400,
     process_version = ''v18.19.0'', cpu_count = 0\<rparr>)"

definition memory_ok :: json where
  "memory_ok = JObj [(''total'', JNum (Some 8589934592)), (''used'', JNum (Some 4294967296)),
     (''free'', JNum (Some 4294967296)), (''usage'', JStr ''50.00'')]"

definition cpu_ok :: json where
  "cpu_ok = cpu_to_json (fst (collectCpuInfo env_first cpu_init))"

definition network_ok :: json where
  "network_ok = JObj []"

definition android_ok :: json where
  "android_ok = JObj [(''available'', JBool False),
     (''reason'', JStr ''Android features not available on darwin'')]"

text \<open>The snapshot of a cycle in which only \<open>df\<close> failed.\<close>

definition snapshot_df_fails :: json where
  "snapshot_df_fails =
     metrics_handler sample_rt 1700000000000 1700000000012 ''2023-11-14T22:13:20.012Z'' (JObj [])
       (Fulfilled host_ok) (Fulfilled memory_ok) (Fulfilled cpu_ok)
       (Fulfilled (fst (collectDiskInfo sample_rt (\<lambda>out. []) env_df_fails disk_init)))
       (Fulfilled network_ok) (Fulfilled android_ok)"

text \<open>\<open>os.cpus()\<close> throws.\<close>

definition env_cpus_fail :: cpu_env where
  "env_cpus_fail = env_first\<lparr>os_cpus := Inl ''os.cpus is not available''\<rparr>"

text \<open>
  The snapshot of a cycle in which the host, memory, CPU and disk collectors each returned
  the value of their \<open>catch\<close> block and the network and Android promises were rejected.
\<close>

definition snapshot_all_fail :: json where
  "snapshot_all_fail =
     metrics_handler sample_rt 1700000000000 1700000000012 ''2023-11-14T22:13:20.012Z'' (JObj [])
       (Fulfilled (collectHostInfo (Inl ''os.hostname is not available'')))
       (Fulfilled (collectMemoryInfo sample_rt (Inl ''os.totalmem is not available'')))
       (Fulfilled (cpu_to_json (fst (collectCpuInfo env_cpus_fail cpu_init))))
       (Fulfilled (fst (collectDiskInfo sample_rt (\<lambda>out. []) env_df_fails disk_init)))
       (Rejected (JObj [(''message'', JStr ''network collector rejected'')]))
       (Rejected JUndefined)"

section \<open>Properties\<close>

subsection \<open>Helper facts\<close>

lemma split_lines_nonempty: "split_lines s cur \<noteq> []"
  by (induction s arbitrary: cur) auto

lemma first_line_defined: "\<exists>l. at_index (split_lines s cur) 0 = Some l"
  using split_lines_nonempty [of s cur] by (simp add: at_index_def)

text \<open>Rounding to a double: the exponent, the error of one operation, and of the delta.\<close>

lemma bit_length_bounds: "0 < n \<Longrightarrow> 2 ^ (bit_length n - 1) \<le> n \<and> n < 2 ^ bit_length n"
proof (induction n rule: bit_length.induct)
  case (1 n)
  show ?case
  proof (cases "n div 2 = 0")
    case True
    with "1.prems" have "n = 1" by (simp add: div_eq_0_iff) 
    then show ?thesis by (simp add: bit_length.simps)
  next
    case False
    then have pos: "0 < n div 2" by simp
    from "1.IH" [OF _ pos] "1.prems"
    have ih: "2 ^ (bit_length (n div 2) - 1) \<le> n div 2" "n div 2 < 2 ^ bit_length (n div 2)"
      by simp_all
    have bl: "bit_length n = Suc (bit_length (n div 2))"
      using "1.prems" by (subst bit_length.simps) simp
    have blpos: "0 < bit_length (n div 2)"
      using pos by (subst bit_length.simps) simp
    then obtain k where k: "bit_length (n div 2) = Suc k" by (cases "bit_length (n div 2)") auto
    from ih k have "2 * 2 ^ k \<le> 2 * (n div 2)" by simp
    also have "\<dots> \<le> n" by simp
    finally have lo: "2 ^ (bit_length n - 1) \<le> n" by (simp add: bl k)
    from ih(2) have "n div 2 + 1 \<le> 2 ^ bit_length (n div 2)" by simp
    then have "2 * (n div 2) + 2 \<le> 2 * 2 ^ bit_length (n div 2)" by simp
    moreover have "n < 2 * (n div 2) + 2" by presburger
    ultimately have "n < 2 ^ bit_length n" by (simp add: bl)
    with lo show ?thesis by simp
  qed
qed

lemma pow2_pos: "0 < pow2 k"
  by (simp add: pow2_def)

lemma pow2_nat: "pow2 (int n) = 2 ^ n"
  by (simp add: pow2_def)

lemma pow2_neg_nat: "pow2 (- int n) = 1 / 2 ^ n"
proof (cases "n = 0")
  case True
  then show ?thesis by (simp add: pow2_def)
next
  case False
  then have "\<not> 0 \<le> - int n" by simp
  then show ?thesis by (simp add: pow2_def)
qed

lemma pow2_powr: "pow2 k = 2 powr (real_of_int k)"
  by (simp add: pow2_def powr_int)

lemma pow2_add: "pow2 (a + b) = pow2 a * pow2 b"
  by (simp add: pow2_powr powr_add)

lemma pow2_mono: "a \<le> b \<Longrightarrow> pow2 a \<le> pow2 b"
  by (simp add: pow2_powr)

lemma pow2_less_iff: "pow2 a < pow2 b \<longleftrightarrow> a < b"
  by (simp add: pow2_powr)

lemma binary_exponent_bounds:
  assumes "0 < x"
  shows "pow2 (binary_exponent x) \<le> x \<and> x < pow2 (binary_exponent x + 1)"
proof (cases "1 \<le> x")
  case True
  define n where "n = nat \<lfloor>x\<rfloor>"
  have n1: "0 < n" using True by (simp add: n_def)
  have nx: "real n \<le> x" "x < real n + 1" using True by (simp_all add: n_def)
  from bit_length_bounds [OF n1] obtain k where k: "bit_length n = Suc k"
    and b: "2 ^ k \<le> n" "n < 2 ^ Suc k"
    by (cases "bit_length n") auto
  have e: "binary_exponent x = int k" using True by (simp add: binary_exponent_def n_def [symmetric] k)
  have "(2::real) ^ k \<le> real n"
    using of_nat_mono [OF b(1), where 'a = real] by simp
  moreover have "n + 1 \<le> 2 ^ Suc k" using b(2) by simp
  then have "real n + 1 \<le> 2 ^ Suc k"
    using of_nat_mono [of "n + 1" "2 ^ Suc k", where 'a = real] by simp
  moreover have "pow2 (binary_exponent x) = 2 ^ k" unfolding e by (rule pow2_nat)
  moreover have "pow2 (binary_exponent x + 1) = 2 ^ Suc k"
    unfolding e using pow2_nat [of "Suc k"] by (simp add: add.commute)
  ultimately show ?thesis using nx by linarith
next
  case False
  define y where "y = 1 / x"
  have y1: "1 < y" using False assms by (simp add: y_def)
  define m where "m = nat (\<lceil>y\<rceil> - 1)"
  have c2: "2 \<le> \<lceil>y\<rceil>" using y1 by linarith
  then have m1: "0 < m" by (simp add: m_def)
  have rm: "real m = real_of_int \<lceil>y\<rceil> - 1" using c2 by (simp add: m_def)
  have my: "real m < y" "y \<le> real m + 1" unfolding rm by linarith+
  from bit_length_bounds [OF m1] obtain k where k: "bit_length m = Suc k"
    and b: "2 ^ k \<le> m" "m < 2 ^ Suc k"
    by (cases "bit_length m") auto
  have e: "binary_exponent x = - int (Suc k)"
    using False by (simp add: binary_exponent_def y_def [symmetric] m_def [symmetric] k)
  have "(2::real) ^ k \<le> real m"
    using of_nat_mono [OF b(1), where 'a = real] by simp
  then have lo: "(2::real) ^ k < y" using my(1) by linarith
  have "m + 1 \<le> 2 ^ Suc k" using b(2) by simp
  then have "real m + 1 \<le> 2 ^ Suc k"
    using of_nat_mono [of "m + 1" "2 ^ Suc k", where 'a = real] by simp
  then have hi: "y \<le> 2 ^ Suc k" using my(2) by linarith
  have x: "x = 1 / y" using assms by (simp add: y_def)
  have "1 / 2 ^ Suc k \<le> x" unfolding x using hi y1 by (simp add: frac_le)
  moreover have "x < 1 / 2 ^ k" unfolding x using lo by (simp add: frac_less2)
  moreover have "pow2 (binary_exponent x + 1) = 1 / 2 ^ k"
    unfolding e using pow2_neg_nat [of k] by simp
  moreover have "pow2 (binary_exponent x) = 1 / 2 ^ Suc k"
    unfolding e by (rule pow2_neg_nat)
  ultimately show ?thesis by simp
qed

lemma round_even_near: "\<bar>real_of_int (round_even q) - q\<bar> \<le> 1 / 2"
  unfolding round_even_def Let_def by (auto; linarith)

lemma to_double_error:
  assumes "x = 0 \<or> pow2 (- 1022) \<le> \<bar>x\<bar>"
  shows "\<bar>to_double x - x\<bar> \<le> \<bar>x\<bar> / 2 ^ 53"
proof (cases "x = 0")
  case True
  then show ?thesis by (simp add: to_double_def)
next
  case False
  then have big: "pow2 (- 1022) \<le> \<bar>x\<bar>" and pos: "0 < \<bar>x\<bar>" using assms by simp_all
  define e where "e = binary_exponent \<bar>x\<bar>"
  from binary_exponent_bounds [OF pos] have eb: "pow2 e \<le> \<bar>x\<bar>" "\<bar>x\<bar> < pow2 (e + 1)"
    by (simp_all add: e_def)
  from big eb(2) have "pow2 (- 1022) < pow2 (e + 1)" by linarith
  then have "- 1022 \<le> e" by (simp add: pow2_less_iff)
  then have m: "max e (- 1022) = e" by simp
  define u where "u = pow2 (e - 52)"
  have upos: "0 < u" by (simp add: u_def pow2_pos)
  have d: "to_double x = real_of_int (round_even (x / u)) * u"
    using False by (simp add: to_double_def Let_def e_def [symmetric] m u_def)
  have "\<bar>to_double x - x\<bar> = \<bar>real_of_int (round_even (x / u)) - x / u\<bar> * u"
  proof -
    have "to_double x - x = (real_of_int (round_even (x / u)) - x / u) * u"
      using upos by (simp add: d field_simps)
    then show ?thesis using upos by (simp add: abs_mult)
  qed
  also have "\<dots> \<le> 1 / 2 * u"
    using round_even_near [of "x / u"] upos by (intro mult_right_mono) simp_all
  also have "\<dots> = pow2 e / 2 ^ 53"
  proof -
    have "pow2 e = pow2 (e - 52) * pow2 52" using pow2_add [of "e - 52" 52] by simp
    then show ?thesis by (simp add: u_def pow2_def)
  qed
  also have "\<dots> \<le> \<bar>x\<bar> / 2 ^ 53" using eb(1) by (simp add: divide_right_mono)
  finally show ?thesis .
qed

lemma pow2_tiny: "pow2 (- 1022) \<le> 1 / 18014398509481984"
  by (simp add: pow2_def)

lemma to_double_error_num:
  assumes "x = 0 \<or> pow2 (- 1022) \<le> \<bar>x\<bar>"
  shows "\<bar>to_double x - x\<bar> \<le> \<bar>x\<bar> / 9007199254740992"
  using to_double_error [OF assms] by simp

lemma to_double_zero: "to_double 0 = 0"
  by (simp add: to_double_def)

lemma int_abs_ge_one: "a \<in> \<int> \<Longrightarrow> a \<noteq> 0 \<Longrightarrow> 1 \<le> \<bar>a::real\<bar>"
  by (auto elim!: Ints_cases)

lemma delta_rounding_error:
  fixes a td :: real
  assumes a: "a \<in> \<int>" and td: "1 \<le> td" "td < 4503599627370496"
  defines "p \<equiv> to_double (to_double (to_double a / td) * 100)" and "s \<equiv> (a / td) * 100"
  shows "\<bar>p - s\<bar> \<le> \<bar>s\<bar> / 2251799813685248"
proof (cases "a = 0")
  case True
  then show ?thesis by (simp add: p_def s_def to_double_zero)
next
  case False
  define a1 where "a1 = to_double a"
  define y where "y = a1 / td"
  define q where "q = to_double y"
  define z where "z = q * 100"
  define r where "r = a / td"
  have p: "p = to_double z" by (simp add: p_def z_def q_def y_def a1_def)
  have s: "s = r * 100" by (simp add: s_def r_def)
  have a1: "1 \<le> \<bar>a\<bar>" using a False by (rule int_abs_ge_one)
  have "pow2 (- 1022) \<le> \<bar>a\<bar>" using a1 pow2_tiny by linarith
  then have f1: "\<bar>a1 - a\<bar> \<le> \<bar>a\<bar> / 9007199254740992"
    unfolding a1_def by (intro to_double_error_num) simp
  have tpos: "0 < td" using td by linarith
  have yr: "y - r = (a1 - a) / td" by (simp add: y_def r_def diff_divide_distrib)
  have R: "\<bar>r\<bar> = \<bar>a\<bar> / td" using tpos by (simp add: r_def)
  have "\<bar>y - r\<bar> = \<bar>a1 - a\<bar> / td" using tpos by (simp add: yr)
  also have "\<dots> \<le> (\<bar>a\<bar> / 9007199254740992) / td"
    using f1 tpos by (intro divide_right_mono) simp_all
  also have "\<dots> = \<bar>r\<bar> / 9007199254740992" by (simp add: R)
  finally have f2: "\<bar>y - r\<bar> \<le> \<bar>r\<bar> / 9007199254740992" .
  have rlow: "1 / 4503599627370496 < \<bar>r\<bar>"
  proof -
    have "1 / 4503599627370496 < 1 / td" using td tpos by (simp add: frac_less2)
    also have "\<dots> \<le> \<bar>a\<bar> / td" using a1 tpos by (simp add: divide_right_mono)
    finally show ?thesis by (simp add: R)
  qed
  have ylow: "1 / 9007199254740992 \<le> \<bar>y\<bar>" using f2 rlow by linarith
  then have "pow2 (- 1022) \<le> \<bar>y\<bar>" using pow2_tiny by linarith
  then have f4: "\<bar>q - y\<bar> \<le> \<bar>y\<bar> / 9007199254740992"
    unfolding q_def by (intro to_double_error_num) simp
  have qlow: "1 / 18014398509481984 \<le> \<bar>q\<bar>" using f4 ylow by linarith
  have "\<bar>z\<bar> = \<bar>q\<bar> * 100" by (simp add: z_def abs_mult)
  then have "pow2 (- 1022) \<le> \<bar>z\<bar>" using qlow pow2_tiny by linarith
  then have "\<bar>p - z\<bar> \<le> \<bar>z\<bar> / 9007199254740992"
    unfolding p by (intro to_double_error_num) simp
  then have f7: "\<bar>p - q * 100\<bar> \<le> \<bar>q\<bar> * 100 / 9007199254740992"
    by (simp add: z_def abs_mult)
  have "\<bar>p - r * 100\<bar> \<le> \<bar>r\<bar> * 100 / 2251799813685248"
    using f2 f4 f7 by linarith
  then show ?thesis by (simp add: s abs_mult)
qed

lemma clamp_error:
  fixes p s :: real
  assumes "\<bar>p - s\<bar> \<le> \<bar>s\<bar> / 2251799813685248"
  shows "\<bar>max 0 (min 100 p) - max 0 (min 100 s)\<bar> \<le> 1 / 1000000000000"
proof -
  consider "\<bar>s\<bar> \<le> 200" | "200 < s" | "s < - 200" by linarith
  then show ?thesis
  proof cases
    case 1
    with assms have "\<bar>p - s\<bar> \<le> 1 / 1000000000000" by linarith
    then show ?thesis by linarith
  next
    case 2
    with assms have "100 \<le> p" by linarith
    with 2 show ?thesis by simp
  next
    case 3
    with assms have "p \<le> 0" by linarith
    with 3 show ?thesis by simp
  qed
qed

lemmas to_double_eval = to_double_def binary_exponent_def round_even_def pow2_def
  bit_length.simps Let_def

lemma to_double_samples:
  "to_double 50 = 50" "to_double (1 / 2) = 1 / 2"
  by (simp_all add: to_double_eval)

text \<open>
  The quotient \<open>23 / 160\<close> is not a double: the product computed from it is one unit in
  the last place below \<open>14.375\<close>.
\<close>

lemma rounded_value:
  "to_double (to_double (to_double (160 - 137) / 160) * 100) = 115 / 8 - 1 / 2 ^ 49"
  by (simp add: to_double_eval)

lemma Math_clamp_Some:
  "Math_max (Some 0) (Math_min (Some 100) (Some x)) = Some (max 0 (min 100 x))"
  by (simp add: Math_max_def Math_min_def)

lemma delta_usage_pos:
  "td > 0 \<Longrightarrow> delta_usage (Some td) (Some idd)
     = Some (to_double (to_double (to_double (td - idd) / td) * 100))"
  by (simp add: delta_usage_def)

lemma delta_usage_nonpos: "td \<le> 0 \<Longrightarrow> delta_usage (Some td) idd = Some 0"
  by (simp add: delta_usage_def)

lemma calculateCpuUsage_os_cpus:
  "calculateCpuUsage (env\<lparr>os_cpus := c\<rparr>) st = calculateCpuUsage env st"
  by (simp add: calculateCpuUsage_def load_estimate_def Let_def split: sum.splits option.splits)

text \<open>Evaluation of the sample runs.\<close>

lemma parseInt_samples:
  "parseInt (Some ''0'') = Some 0" "parseInt (Some ''100'') = Some 100"
  "parseInt (Some ''150'') = Some 150" "parseInt (Some ''800'') = Some 800"
  "parseInt (Some ''900'') = Some 900" "parseInt (Some ''950'') = Some 950"
  "parseInt (Some ''923'') = Some 923" "parseInt (Some ''237'') = Some 237"
  by (simp_all add: parseInt_def isSpace_def startsWith_def digitVal_def)

lemma first_line_samples:
  "at_index (split_lines (trim ''cpu  900 0 0 100 0 0 0 0 0 0'') []) 0
     = Some ''cpu  900 0 0 100 0 0 0 0 0 0''"
  "at_index (split_lines (trim ''cpu  950 0 0 150 0 0 0 0 0 0'') []) 0
     = Some ''cpu  950 0 0 150 0 0 0 0 0 0''"
  "at_index (split_lines (trim ''cpu  800 0 0 100 0 0 0 0 0 0'') []) 0
     = Some ''cpu  800 0 0 100 0 0 0 0 0 0''"
  "at_index (split_lines (trim ''cpu  923 0 0 237 0 0 0 0 0 0'') []) 0
     = Some ''cpu  923 0 0 237 0 0 0 0 0 0''"
  by (simp_all add: trim_def isSpace_def at_index_def)

lemma split_space_samples:
  "split_space ''cpu  900 0 0 100 0 0 0 0 0 0''
     = [''cpu'', ''900'', ''0'', ''0'', ''100'', ''0'', ''0'', ''0'', ''0'', ''0'', ''0'']"
  "split_space ''cpu  950 0 0 150 0 0 0 0 0 0''
     = [''cpu'', ''950'', ''0'', ''0'', ''150'', ''0'', ''0'', ''0'', ''0'', ''0'', ''0'']"
  "split_space ''cpu  800 0 0 100 0 0 0 0 0 0''
     = [''cpu'', ''800'', ''0'', ''0'', ''100'', ''0'', ''0'', ''0'', ''0'', ''0'', ''0'']"
  "split_space ''cpu  923 0 0 237 0 0 0 0 0 0''
     = [''cpu'', ''923'', ''0'', ''0'', ''237'', ''0'', ''0'', ''0'', ''0'', ''0'', ''0'']"
  by (simp_all add: split_space_def isSpace_def)

lemma at_index_fixed:
  "at_index [] i = None"
  "at_index (a # r) 0 = Some a"
  "at_index (a # b # c # d # e # r) 4 = Some e"
  "at_index (a # b # c # d # e # f # r) 5 = Some f"
  by (simp_all add: at_index_def)

lemmas cpu_eval = calculateCpuUsage_def first_line_samples split_space_samples parseInt_samples
  at_index_fixed slice_def js_add_def js_sub_def js_mul_def or_zero_def has_prior_def
  delta_usage_def to_double_samples Math_min_def Math_max_def load_estimate_def Let_def

lemma run_first: "calculateCpuUsage env_first cpu_init = (Some 5, st_seeded)"
  by (simp add: env_first_def cpu_init_def st_seeded_def cpu_eval)

lemma run_second:
  "calculateCpuUsage env_second st_seeded =
     (Some 50, \<lparr>lastCpuUsage = Some \<lparr>total = Some 1100, idle = Some 150, iowait = Some 0\<rparr>,
        lastMeasureTime = Some 1700000005000\<rparr>)"
  by (simp add: env_second_def env_first_def st_seeded_def cpu_eval)

lemma run_backwards:
  "calculateCpuUsage env_backwards st_seeded =
     (Some 0, \<lparr>lastCpuUsage = Some \<lparr>total = Some 900, idle = Some 100, iowait = Some 0\<rparr>,
        lastMeasureTime = Some 1700000005000\<rparr>)"
  by (simp add: env_backwards_def env_first_def st_seeded_def cpu_eval)

lemma run_rounded:
  "calculateCpuUsage env_rounded st_seeded =
     (Some (115 / 8 - 1 / 2 ^ 49),
      \<lparr>lastCpuUsage = Some \<lparr>total = Some 1160, idle = Some 237, iowait = Some 0\<rparr>,
        lastMeasureTime = Some 1700000005000\<rparr>)"
proof -
  have "calculateCpuUsage env_rounded st_seeded =
     (Math_max (Some 0) (Math_min (Some 100) (delta_usage (Some 160) (Some 137))),
      \<lparr>lastCpuUsage = Some \<lparr>total = Some 1160, idle = Some 237, iowait = Some 0\<rparr>,
        lastMeasureTime = Some 1700000005000\<rparr>)"
    by (simp add: env_rounded_def env_first_def st_seeded_def calculateCpuUsage_def
          first_line_samples split_space_samples parseInt_samples at_index_fixed slice_def
          js_add_def js_sub_def or_zero_def has_prior_def Let_def)
  moreover have "delta_usage (Some 160) (Some 137) = Some (115 / 8 - 1 / 2 ^ 49)"
    using rounded_value by (simp add: delta_usage_pos)
  ultimately show ?thesis by (simp add: Math_max_def Math_min_def)
qed

lemma run_unreadable:
  "collectCpuInfo env_unreadable st_seeded =
     (CpuInfo \<lparr>cpu_usage = Some 5, cpu_loadavg = [1 / 2, 1 / 4, 1 / 8], cores = 0,
               model = ''Unknown'', speed = 0, coreUsage = []\<rparr>, st_seeded)"
  by (simp add: collectCpuInfo_def env_unreadable_def env_first_def cpu_eval
        parseFloat_toFixed_def roundFixed_def)

lemma run_darwin:
  "collectCpuInfo env_darwin cpu_init =
     (CpuInfo \<lparr>cpu_usage = Some 125, cpu_loadavg = [25 / 2, 10, 8], cores = 0,
               model = ''Unknown'', speed = 0, coreUsage = []\<rparr>, cpu_init)"
  "fst (calculateCpuUsage env_darwin cpu_init) = Some 125"
  "Math_min (Some 100) (load_estimate env_darwin) = Some 100"
  by (simp_all add: collectCpuInfo_def env_darwin_def cpu_eval parseFloat_toFixed_def
        roundFixed_def)

lemma run_first_collect:
  "collectCpuInfo env_first cpu_init =
     (CpuInfo \<lparr>cpu_usage = Some 5, cpu_loadavg = [1 / 2, 1 / 4, 1 / 8], cores = 0,
               model = ''Unknown'', speed = 0, coreUsage = []\<rparr>, st_seeded)"
proof -
  have "os_cpus env_first = Inr []" "os_loadavg env_first = [1 / 2, 1 / 4, 1 / 8]"
    by (simp_all add: env_first_def)
  then show ?thesis
    by (simp add: collectCpuInfo_def run_first parseFloat_toFixed_def roundFixed_def
          at_index_fixed)
qed

subsection \<open>The CPU delta\<close>

text \<open>
  C3, as the code has it. On Linux, when a prior sample is stored and \<open>/proc/stat\<close> is read,
  the usage returned by \<open>calculateCpuUsage\<close> is determined by the stored sample \<open>prev\<close>
  and the sample \<open>cur\<close> this call stores. With all counters natural numbers below
  \<open>2 ^ 52\<close>, \<open>totalDelta\<close> the difference of the totals and \<open>idleDelta\<close> the difference of
  the sums of idle and I/O-wait ticks: when \<open>totalDelta > 0\<close> the usage is
  \<open>((totalDelta - idleDelta) / totalDelta) * 100\<close>, each operation rounded to a double,
  clamped to \<open>[0, 100]\<close>, and it lies within \<open>10 ^ -12\<close> of
  \<open>100 * (1 - idleDelta / totalDelta)\<close> clamped to \<open>[0, 100]\<close>; when \<open>totalDelta \<le> 0\<close> it is
  0.
\<close>

theorem cpu_delta_usage:
  assumes linux: "os_platform env = ''linux''"
    and rd: "read_proc_stat env = Inr txt"
    and prior: "has_prior st" "lastCpuUsage st = Some prev"
    and run: "calculateCpuUsage env st = (u, st')"
    and cur: "lastCpuUsage st' = Some cur"
    and p: "total prev = Some t0" "idle prev = Some i0" "iowait prev = Some w0"
    and c: "total cur = Some t1" "idle cur = Some i1" "iowait cur = Some w1"
    and counters: "t0 \<in> \<nat>" "i0 \<in> \<nat>" "w0 \<in> \<nat>" "t1 \<in> \<nat>" "i1 \<in> \<nat>" "w1 \<in> \<nat>"
    and small: "t0 < 2 ^ 52" "i0 < 2 ^ 52" "w0 < 2 ^ 52" "t1 < 2 ^ 52" "i1 < 2 ^ 52" "w1 < 2 ^ 52"
    and deltas: "totalDelta = t1 - t0" "idleDelta = (i1 + w1) - (i0 + w0)"
  shows "u = Some (if totalDelta > 0
                   then max 0 (min 100 (to_double
                          (to_double (to_double (totalDelta - idleDelta) / totalDelta) * 100)))
                   else 0)
     \<and> (\<exists>v. u = Some v
          \<and> \<bar>v - (if totalDelta > 0 then spec_delta_usage idleDelta totalDelta else 0)\<bar>
              \<le> 1 / 10 ^ 12)"
proof -
  obtain l where l: "at_index (split_lines (trim txt) []) 0 = Some l"
    using first_line_defined by blast
  define smp where "smp = \<lparr>total = foldl (\<lambda>sum time. js_add sum (parseInt (Some time))) (Some 0)
                                (slice 1 8 (split_space l)),
      idle = parseInt (at_index (split_space l) 4),
      iowait = or_zero (parseInt (at_index (split_space l) 5))\<rparr>"
  have st': "st' = \<lparr>lastCpuUsage = Some smp, lastMeasureTime = Some (date_now env)\<rparr>"
    and u: "u = Math_max (Some 0) (Math_min (Some 100)
          (delta_usage (js_sub (total smp) (total prev))
             (js_sub (js_add (idle smp) (iowait smp)) (js_add (idle prev) (iowait prev)))))"
    using run linux rd prior l
    by (simp_all add: calculateCpuUsage_def Let_def smp_def)
  have "cur = smp" using cur st' by simp
  then have u2: "u = Math_max (Some 0) (Math_min (Some 100)
          (delta_usage (Some totalDelta) (Some idleDelta)))"
    using u p c by (simp add: js_sub_def js_add_def deltas)
  show ?thesis
  proof (cases "totalDelta > 0")
    case True
    define P where "P = to_double (to_double (to_double (totalDelta - idleDelta) / totalDelta) * 100)"
    define S where "S = ((totalDelta - idleDelta) / totalDelta) * 100"
    have uv: "u = Some (max 0 (min 100 P))"
      using u2 True by (simp add: delta_usage_pos Math_clamp_Some P_def)
    have ints: "totalDelta \<in> \<int>" "totalDelta - idleDelta \<in> \<int>"
      using counters Nats_subset_Ints unfolding deltas by (auto intro!: Ints_diff Ints_add)
    have "1 \<le> \<bar>totalDelta\<bar>" using ints(1) True by (intro int_abs_ge_one) simp_all
    then have lo: "1 \<le> totalDelta" using True by simp
    have "0 \<le> t0" using counters(1) by (auto elim!: Nats_cases)
    then have hi: "totalDelta < 4503599627370496" using small(4) by (simp add: deltas)
    have "\<bar>P - S\<bar> \<le> \<bar>S\<bar> / 2251799813685248"
      unfolding P_def S_def by (rule delta_rounding_error [OF ints(2) lo hi])
    then have err: "\<bar>max 0 (min 100 P) - max 0 (min 100 S)\<bar> \<le> 1 / 1000000000000"
      by (rule clamp_error)
    have "S = 100 * (1 - idleDelta / totalDelta)"
      using True by (simp add: S_def field_simps)
    then have "max 0 (min 100 S) = spec_delta_usage idleDelta totalDelta"
      by (simp add: spec_delta_usage_def)
    with err uv True show ?thesis by (simp add: P_def)
  next
    case False
    then have "delta_usage (Some totalDelta) (Some idleDelta) = Some 0"
      by (simp add: delta_usage_nonpos)
    then show ?thesis using u2 False by (simp add: Math_clamp_Some)
  qed
qed

text \<open>
  The samples of the specification: \<open>{idle = 100, total = 1000}\<close> is stored, then
  \<open>{idle = 150, total = 1100}\<close> is read; the usage is exactly 50.
\<close>

theorem cpu_delta_usage_witness:
  "has_prior st_seeded
   \<and> fst (calculateCpuUsage env_second st_seeded) = Some 50
   \<and> to_double (to_double (to_double ((1100 - 1000) - ((150 + 0) - (100 + 0))) / (1100 - 1000)) * 100)
       = 50
   \<and> spec_delta_usage ((150 + 0) - (100 + 0)) (1100 - 1000) = 50"
proof -
  have a: "os_platform env_second = ''linux''"
    and b: "read_proc_stat env_second = Inr ''cpu  950 0 0 150 0 0 0 0 0 0''"
    by (simp_all add: env_second_def env_first_def)
  have c: "has_prior st_seeded"
    and d: "lastCpuUsage st_seeded = Some \<lparr>total = Some 1000, idle = Some 100, iowait = Some 0\<rparr>"
    by (simp_all add: has_prior_def st_seeded_def)
  have v: "to_double (to_double (to_double ((1100 - 1000) - ((150 + 0) - (100 + 0))) / (1100 - 1000))
      * 100) = 50"
    by (simp add: to_double_samples)
  have "fst (calculateCpuUsage env_second st_seeded)
      = Some (if (1100::real) - 1000 > 0
              then max 0 (min 100 (to_double (to_double
                     (to_double ((1100 - 1000) - ((150 + 0) - (100 + 0))) / (1100 - 1000)) * 100)))
              else 0)"
    using cpu_delta_usage [OF a b c d run_second, of
        "\<lparr>total = Some 1100, idle = Some 150, iowait = Some 0\<rparr>" 1000 100 0 1100 150 0
        "1100 - 1000" "(150 + 0) - (100 + 0)"]
    by (simp add: run_second)
  then have "fst (calculateCpuUsage env_second st_seeded) = Some 50"
    by (simp add: to_double_samples)
  then show ?thesis using c v by (simp add: spec_delta_usage_def)
qed

text \<open>
  With deltas 137 and 160 the usage is \<open>14.374999999999998\<close>, one unit in the last place
  below the \<open>14.375\<close> of the exact formula.
\<close>

lemma rounded_sample_usage:
  "fst (calculateCpuUsage env_rounded st_seeded) = Some (115 / 8 - 1 / 2 ^ 49)
   \<and> spec_delta_usage 137 160 = 115 / 8"
  by (simp add: run_rounded spec_delta_usage_def)

text \<open>
  C3 as stated fails where the total went back: with \<open>{idle = 100, total = 1000}\<close> stored
  and \<open>{idle = 100, total = 900}\<close> read, the formula gives 100 and the code returns 0.
\<close>

theorem delta_formula_counterexample:
  "has_prior st_seeded
   \<and> calculateCpuUsage env_backwards st_seeded =
       (Some 0, \<lparr>lastCpuUsage = Some \<lparr>total = Some 900, idle = Some 100, iowait = Some 0\<rparr>,
          lastMeasureTime = Some 1700000005000\<rparr>)
   \<and> spec_delta_usage ((100 + 0) - (100 + 0)) (900 - 1000) = 100"
  using run_backwards by (simp add: has_prior_def st_seeded_def spec_delta_usage_def)

subsection \<open>A failed read of the counters\<close>

text \<open>
  C4, as the code has it. On Linux, when \<open>/proc/stat\<close> cannot be read, \<open>calculateCpuUsage\<close>
  leaves the stored sample and its time as they are and returns the load-average estimate
  \<open>min(100, loadavg[0] * 10)\<close>; \<open>collectCpuInfo\<close> then returns its normal object, not
  a failure.
\<close>

theorem cpu_read_failure_fallback:
  assumes "os_platform env = ''linux''" and "read_proc_stat env = Inl err"
  shows "calculateCpuUsage env st = (Math_min (Some 100) (load_estimate env), st)
     \<and> (\<forall>cpus. os_cpus env = Inr cpus \<longrightarrow> (\<exists>info. collectCpuInfo env st = (CpuInfo info, st)))"
proof -
  have calc: "calculateCpuUsage env st = (Math_min (Some 100) (load_estimate env), st)"
    using assms by (simp add: calculateCpuUsage_def)
  have "\<exists>info. collectCpuInfo env st = (CpuInfo info, st)" if "os_cpus env = Inr cpus" for cpus
    using that calc by (simp add: collectCpuInfo_def Let_def)
  with calc show ?thesis by blast
qed

theorem cpu_read_failure_fallback_witness:
  "calculateCpuUsage env_unreadable st_seeded = (Some 5, st_seeded)
   \<and> (\<exists>info. collectCpuInfo env_unreadable st_seeded = (CpuInfo info, st_seeded))"
proof -
  have a: "os_platform env_unreadable = ''linux''"
    and b: "read_proc_stat env_unreadable = Inl ''EACCES: permission denied, open /proc/stat''"
    and c: "os_cpus env_unreadable = Inr []"
    and d: "Math_min (Some 100) (load_estimate env_unreadable) = Some 5"
    by (simp_all add: env_unreadable_def env_first_def load_estimate_def at_index_def
          js_mul_def Math_min_def)
  show ?thesis
    using cpu_read_failure_fallback [OF a b, of st_seeded] c d by simp
qed

text \<open>
  C4 as stated fails: with a sample stored and \<open>/proc/stat\<close> unreadable, the collector
  returns a usage of 5, computed from the load average, and no failure.
\<close>

theorem cpu_read_failure_counterexample:
  "read_proc_stat env_unreadable = Inl ''EACCES: permission denied, open /proc/stat''
   \<and> collectCpuInfo env_unreadable st_seeded =
       (CpuInfo \<lparr>cpu_usage = Some 5, cpu_loadavg = [1 / 2, 1 / 4, 1 / 8], cores = 0,
                 model = ''Unknown'', speed = 0, coreUsage = []\<rparr>, st_seeded)"
proof -
  have "read_proc_stat env_unreadable = Inl ''EACCES: permission denied, open /proc/stat''"
    by (simp add: env_unreadable_def)
  with run_unreadable show ?thesis by (intro conjI)
qed

subsection \<open>The load-average estimate\<close>

text \<open>
  C5 at a host that is not Linux with a one-minute load average of 12.5:
  \<open>calculateCpuUsage\<close> returns \<open>12.5 * 10 = 125\<close>, where \<open>min(100, loadavg[0] * 10)\<close> is 100,
  and \<open>collectCpuInfo\<close> reports a usage of 125.
\<close>

theorem cpu_fallback_unclamped_off_linux:
  "os_platform env_darwin \<noteq> ''linux''
   \<and> fst (calculateCpuUsage env_darwin cpu_init) = Some 125
   \<and> Math_min (Some 100) (load_estimate env_darwin) = Some 100
   \<and> (\<exists>info st. collectCpuInfo env_darwin cpu_init = (CpuInfo info, st) \<and> cpu_usage info = Some 125)"
proof -
  have "os_platform env_darwin \<noteq> ''linux''" by (simp add: env_darwin_def)
  with run_darwin show ?thesis by simp
qed

text \<open>Off Linux the estimate is returned as it is, for every load average.\<close>

lemma cpu_off_linux:
  "os_platform env \<noteq> ''linux'' \<Longrightarrow> calculateCpuUsage env st = (load_estimate env, st)"
  by (simp add: calculateCpuUsage_def)

text \<open>
  On Linux the first read is clamped and seeds the state: with no prior sample, the value
  is \<open>min(100, loadavg[0] * 10)\<close> and the sample read is stored with the time of the call.
\<close>

lemma cpu_first_call_linux:
  assumes "os_platform env = ''linux''" and "read_proc_stat env = Inr txt" and "\<not> has_prior st"
  shows "fst (calculateCpuUsage env st) = Math_min (Some 100) (load_estimate env)
     \<and> lastCpuUsage (snd (calculateCpuUsage env st)) \<noteq> None
     \<and> lastMeasureTime (snd (calculateCpuUsage env st)) = Some (date_now env)"
proof -
  obtain l where "at_index (split_lines (trim txt) []) 0 = Some l"
    using first_line_defined by blast
  then show ?thesis
    using assms by (simp add: calculateCpuUsage_def Let_def)
qed

subsection \<open>Guarded divisions and the range of the per-core usage\<close>

lemma roundFixed2_range:
  assumes "0 \<le> x" and "x \<le> 100"
  shows "0 \<le> roundFixed 2 x \<and> roundFixed 2 x \<le> 100"
proof -
  have small: "\<not> \<bar>x\<bar> \<ge> 10 ^ 21" using assms by simp
  have lo: "0 \<le> \<lfloor>\<bar>x\<bar> * 10 ^ 2 + 1 / 2\<rfloor>" using assms by simp
  have "\<bar>x\<bar> * 10 ^ 2 + 1 / 2 < 10001" using assms by simp
  then have hi: "\<lfloor>\<bar>x\<bar> * 10 ^ 2 + 1 / 2\<rfloor> \<le> 10000" by linarith
  have v: "0 \<le> real_of_int \<lfloor>\<bar>x\<bar> * 10 ^ 2 + 1 / 2\<rfloor> / 10 ^ 2"
    "real_of_int \<lfloor>\<bar>x\<bar> * 10 ^ 2 + 1 / 2\<rfloor> / 10 ^ 2 \<le> 100"
    using lo hi by simp_all
  have r: "roundFixed 2 x = sgn x * (real_of_int \<lfloor>\<bar>x\<bar> * 10 ^ 2 + 1 / 2\<rfloor> / 10 ^ 2)"
    using small by (simp add: roundFixed_def)
  show ?thesis
  proof (cases "x = 0")
    case True then show ?thesis using r by simp
  next
    case False
    then have "sgn x = 1" using assms by (simp add: sgn_if)
    with r have eq: "roundFixed 2 x = real_of_int \<lfloor>\<bar>x\<bar> * 10 ^ 2 + 1 / 2\<rfloor> / 10 ^ 2"
      by (simp only: mult_1)
    show ?thesis unfolding eq by (intro conjI) (rule v)+
  qed
qed

lemma coreUsagePercent_range: "0 \<le> coreUsagePercent cpu \<and> coreUsagePercent cpu \<le> 100"
proof -
  let ?t = "times_total (cpu_times cpu)"
  let ?i = "real (times_idle (cpu_times cpu))"
  define p where "p = (?t - ?i) / ?t"
  have il: "?i \<le> ?t" by (simp add: times_total_def)
  show ?thesis
  proof (cases "?t > 0")
    case True
    have "0 \<le> p" using il True by (simp add: p_def)
    moreover have "p \<le> 1" using il True by (simp add: p_def divide_le_eq)
    moreover have "coreUsagePercent cpu = p * 100"
      using True by (simp add: coreUsagePercent_def Let_def p_def)
    ultimately show ?thesis by simp
  next
    case False
    then show ?thesis by (simp add: coreUsagePercent_def Let_def)
  qed
qed

lemma core_entry_range: "0 \<le> usage (core_entry i cpu) \<and> usage (core_entry i cpu) \<le> 100"
  using coreUsagePercent_range [of cpu] roundFixed2_range [of "min 100 (coreUsagePercent cpu)"]
  by (simp add: core_entry_def)

lemma coreUsage_of_collect:
  assumes "fst (collectCpuInfo env st) = CpuInfo info"
  shows "\<exists>cpus. coreUsage info = map (\<lambda>(index, cpu). core_entry index cpu) (enumerate 0 cpus)"
  using assms
  by (auto simp: collectCpuInfo_def Let_def split: sum.splits prod.splits)

text \<open>
  C10. The two divisions of the CPU collector are guarded: the delta is 0 when
  \<open>totalDiff \<le> 0\<close>, the usage of a core is 0 when its times sum to 0; and every element
  of the \<open>coreUsage\<close> list of a result has a usage in \<open>[0, 100]\<close>.
\<close>

theorem cpu_divisions_guarded:
  "(td \<le> 0 \<longrightarrow> delta_usage (Some td) idd = Some 0)
   \<and> (times_total (cpu_times cpu) = 0 \<longrightarrow> usage (core_entry i cpu) = 0)
   \<and> (fst (collectCpuInfo env st) = CpuInfo info \<longrightarrow>
        (\<forall>c \<in> set (coreUsage info). 0 \<le> usage c \<and> usage c \<le> 100))"
proof (intro conjI impI)
  assume "td \<le> 0"
  then show "delta_usage (Some td) idd = Some 0" by (simp add: delta_usage_def)
next
  assume "times_total (cpu_times cpu) = 0"
  then show "usage (core_entry i cpu) = 0"
    by (simp add: core_entry_def coreUsagePercent_def roundFixed_def)
next
  assume "fst (collectCpuInfo env st) = CpuInfo info"
  then obtain cpus where
    cu: "coreUsage info = map (\<lambda>(index, cpu). core_entry index cpu) (enumerate 0 cpus)"
    using coreUsage_of_collect by blast
  show "\<forall>c \<in> set (coreUsage info). 0 \<le> usage c \<and> usage c \<le> 100"
  proof
    fix c assume "c \<in> set (coreUsage info)"
    then obtain k cpu' where "c = core_entry k cpu'" using cu by auto
    then show "0 \<le> usage c \<and> usage c \<le> 100" using core_entry_range by simp
  qed
qed

lemma core_entries_two:
  "map (\<lambda>(index, cpu). core_entry index cpu) (enumerate 0 two_cpus)
     = [\<lparr>core = 0, usage = 70\<rparr>, \<lparr>core = 1, usage = 0\<rparr>]"
  by (simp add: two_cpus_def core_entry_def coreUsagePercent_def times_total_def roundFixed_def)

lemma run_two:
  "fst (collectCpuInfo env_two st_seeded) =
     CpuInfo \<lparr>cpu_usage = Some 50, cpu_loadavg = [1 / 2, 1 / 4, 1 / 8], cores = 2,
        model = ''Cortex-A53'', speed = 1400,
        coreUsage = [\<lparr>core = 0, usage = 70\<rparr>, \<lparr>core = 1, usage = 0\<rparr>]\<rparr>"
proof -
  have cpus: "os_cpus env_two = Inr two_cpus" and la: "os_loadavg env_two = [1 / 2, 1 / 4, 1 / 8]"
    by (simp_all add: env_two_def env_second_def env_first_def)
  have calc: "calculateCpuUsage env_two st_seeded = calculateCpuUsage env_second st_seeded"
    by (simp add: env_two_def calculateCpuUsage_os_cpus)
  have hd: "at_index two_cpus 0 = Some (two_cpus ! 0)" by (simp add: at_index_def two_cpus_def)
  have m: "cpu_model (two_cpus ! 0) = ''Cortex-A53''" "cpu_speed (two_cpus ! 0) = 1400"
    "length two_cpus = 2"
    by (simp_all add: two_cpus_def)
  have r: "roundFixed 2 50 = 50" "roundFixed 3 (1 / 2) = 1 / 2"
    "roundFixed 3 (1 / 4) = 1 / 4" "roundFixed 3 (1 / 8) = 1 / 8"
    by (simp_all add: roundFixed_def)
  show ?thesis
    by (simp add: collectCpuInfo_def cpus la calc run_second core_entries_two hd m r
          parseFloat_toFixed_def del: enumerate_simps)
qed

theorem cpu_divisions_guarded_witness:
  "delta_usage (Some (- 100)) (Some 0) = Some 0
   \<and> times_total (cpu_times (two_cpus ! 1)) = 0 \<and> usage (core_entry 1 (two_cpus ! 1)) = 0
   \<and> (\<exists>info. fst (collectCpuInfo env_two st_seeded) = CpuInfo info
        \<and> coreUsage info = [\<lparr>core = 0, usage = 70\<rparr>, \<lparr>core = 1, usage = 0\<rparr>]
        \<and> list_all (\<lambda>c. 0 \<le> usage c \<and> usage c \<le> 100) (coreUsage info))"
proof -
  let ?info = "\<lparr>cpu_usage = Some 50, cpu_loadavg = [1 / 2, 1 / 4, 1 / 8], cores = 2,
      model = ''Cortex-A53'', speed = 1400,
      coreUsage = [\<lparr>core = 0, usage = 70\<rparr>, \<lparr>core = 1, usage = 0\<rparr>]\<rparr>"
  have z: "times_total (cpu_times (two_cpus ! 1)) = 0"
    by (simp add: two_cpus_def times_total_def)
  note g = cpu_divisions_guarded [of "- 100" "Some 0" "two_cpus ! 1" 1 env_two st_seeded ?info]
  from g have "delta_usage (Some (- 100)) (Some 0) = Some 0" by simp
  moreover from g z have "usage (core_entry 1 (two_cpus ! 1)) = 0" by blast
  moreover from g run_two
  have "\<forall>c \<in> set (coreUsage ?info). 0 \<le> usage c \<and> usage c \<le> 100" by blast
  then have "list_all (\<lambda>c. 0 \<le> usage c \<and> usage c \<le> 100) (coreUsage ?info)"
    by (simp only: list_all_iff)
  ultimately show ?thesis using z run_two by auto
qed

subsection \<open>The denylist of the disk collector\<close>

lemma parse_df_lines_concat:
  "parse_df_lines rt ls acc = acc @ concat (map (parse_df_line rt) ls)"
  by (induction ls arbitrary: acc) simp_all

lemma parse_df_line_not_skipped:
  "d \<in> set (parse_df_line rt line) \<Longrightarrow> \<not> skipped (filesystem d) (mountpoint d)"
  by (auto simp: parse_df_line_def split: list.splits if_splits)

text \<open>
  C7, as the code has it. The result of \<open>parseDfOutput\<close> is made line by line from the
  lines after the header; a line with at least six fields whose first field starts with
  \<open>tmpfs\<close>, \<open>udev\<close> or \<open>/dev/loop\<close>, or whose sixth field starts with \<open>/snap/\<close>, \<open>/sys\<close>,
  \<open>/proc\<close> or \<open>/run\<close>, adds nothing, whatever its size, used, available and usage fields
  are; and no element of the result has such a filesystem or mount point.
\<close>

theorem df_denylist_excluded:
  "parseDfOutput rt output
      = concat (map (parse_df_line rt) (drop 1 (split_lines (trim output) [])))
   \<and> (split_space (trim line) = fs # sz # us # av # pct # mp # rest \<longrightarrow> skipped fs mp
        \<longrightarrow> parse_df_line rt line = [])
   \<and> (\<forall>d \<in> set (parseDfOutput rt output). \<not> skipped (filesystem d) (mountpoint d))"
proof (intro conjI impI ballI)
  show c: "parseDfOutput rt output
      = concat (map (parse_df_line rt) (drop 1 (split_lines (trim output) [])))"
    by (simp add: parseDfOutput_def parse_df_lines_concat)
  show "parse_df_line rt line = []"
    if "split_space (trim line) = fs # sz # us # av # pct # mp # rest" and "skipped fs mp"
    using that by (simp add: parse_df_line_def)
  show "\<not> skipped (filesystem d) (mountpoint d)" if "d \<in> set (parseDfOutput rt output)" for d
  proof -
    from that obtain line where "d \<in> set (parse_df_line rt line)"
      unfolding c by auto
    then show ?thesis by (rule parse_df_line_not_skipped)
  qed
qed

lemma df_sample_parsed:
  "map (\<lambda>d. (filesystem d, mountpoint d)) (parseDfOutput rt df_sample)
     = [(''/dev/root'', ''/''), (''overlay'', ''/var/lib/docker/overlay2/x/merged'')]"
  by (simp add: parseDfOutput_def df_sample_def trim_def isSpace_def parse_df_line_def
        split_space_def skipped_def startsWith_def)

lemma tmpfs_line_fields:
  "split_space (trim ''tmpfs 500 0 500 0% /dev/shm'')
     = [''tmpfs'', ''500'', ''0'', ''500'', ''0%'', ''/dev/shm'']"
  by (simp add: split_space_def trim_def isSpace_def)

text \<open>
  In the sample output the \<open>tmpfs\<close> line and the line mounted under \<open>/run\<close> are left out.
\<close>

theorem df_denylist_excluded_witness:
  "\<forall>rt. skipped ''tmpfs'' ''/dev/shm''
     \<and> parse_df_line rt ''tmpfs 500 0 500 0% /dev/shm'' = []
     \<and> list_all (\<lambda>d. \<not> skipped (filesystem d) (mountpoint d)) (parseDfOutput rt df_sample)
     \<and> map (\<lambda>d. (filesystem d, mountpoint d)) (parseDfOutput rt df_sample)
         = [(''/dev/root'', ''/''), (''overlay'', ''/var/lib/docker/overlay2/x/merged'')]"
proof
  fix rt
  have sk: "skipped ''tmpfs'' ''/dev/shm''"
    by (simp add: skipped_def startsWith_def)
  note t = df_denylist_excluded [of rt df_sample "''tmpfs 500 0 500 0% /dev/shm''"
      "''tmpfs''" "''500''" "''0''" "''500''" "''0%''" "''/dev/shm''" "[]"]
  from t tmpfs_line_fields sk have "parse_df_line rt ''tmpfs 500 0 500 0% /dev/shm'' = []"
    by blast
  moreover from t
  have "\<forall>d \<in> set (parseDfOutput rt df_sample). \<not> skipped (filesystem d) (mountpoint d)"
    by blast
  then have "list_all (\<lambda>d. \<not> skipped (filesystem d) (mountpoint d)) (parseDfOutput rt df_sample)"
    by (simp only: list_all_iff)
  ultimately show "skipped ''tmpfs'' ''/dev/shm''
     \<and> parse_df_line rt ''tmpfs 500 0 500 0% /dev/shm'' = []
     \<and> list_all (\<lambda>d. \<not> skipped (filesystem d) (mountpoint d)) (parseDfOutput rt df_sample)
     \<and> map (\<lambda>d. (filesystem d, mountpoint d)) (parseDfOutput rt df_sample)
         = [(''/dev/root'', ''/''), (''overlay'', ''/var/lib/docker/overlay2/x/merged'')]"
    using sk df_sample_parsed [of rt] by (intro conjI)
qed

text \<open>
  C7 as stated fails for an overlay mount: the line of the \<open>overlay\<close> filesystem is kept.
\<close>

theorem df_overlay_counterexample:
  "map (\<lambda>d. (filesystem d, mountpoint d)) (parseDfOutput sample_rt df_sample)
     = [(''/dev/root'', ''/''), (''overlay'', ''/var/lib/docker/overlay2/x/merged'')]"
  by (rule df_sample_parsed)

subsection \<open>The cache of the disk collector\<close>



lemma df_fails_first:
  "collectDiskInfo rt w env_df_fails disk_init
     = (disk_error ''Failed to collect disk information'' ''Command failed: df -kP'', disk_init,
        [Exec ''df -kP''])"
  by (simp add: collectDiskInfo_def env_df_fails_def disk_init_def cache_hit_def)


lemma android_linux_sample:
  "collectAndroidInfo rt env_df_fails android_init =
     (JObj [(''available'', JBool True), (''termuxApi'', JBool False),
            (''battery'', JObj [(''error'', JStr ''Termux API not available''),
                (''message'', JStr ''Install termux-api package and Termux:API app'')]),
            (''thermal'', JObj [(''zones'', JObj []), (''count'', JNum (Some 0))]),
            (''device'', JObj []),
            (''timestamp'', JStr ''2023-11-14T22:13:20.000Z'')],
      \<lparr>androidCache = Some (JObj [(''available'', JBool True), (''termuxApi'', JBool False),
            (''battery'', JObj [(''error'', JStr ''Termux API not available''),
                (''message'', JStr ''Install termux-api package and Termux:API app'')]),
            (''thermal'', JObj [(''zones'', JObj []), (''count'', JNum (Some 0))]),
            (''device'', JObj []),
            (''timestamp'', JStr ''2023-11-14T22:13:20.000Z'')]),
         androidCacheTime = 1700000000000\<rparr>,
      [Exec ''which termux-battery-status'', Exists ''/sys/class/thermal'',
       Exec ''which termux-battery-status'', Exec ''which termux-battery-status'',
       Exists ''/proc/version'', Exec ''which termux-battery-status''])"
  by (simp add: collectAndroidInfo_def cache_hit_def android_init_def env_df_fails_def
        getBatteryInfo_def getThermalInfo_def getDeviceInfo_def isTermuxApiAvailable_def Let_def)



text \<open>
  Call after call, the time of a populated cache entry never goes back: a store happens
  only when the entry is at least 30 seconds old.
\<close>

lemma disk_cache_time_monotone:
  assumes "diskCache st = Some c" and "truthy c"
  shows "diskCacheTime st \<le> diskCacheTime (fst (snd (collectDiskInfo rt w env st)))"
  using assms
  by (auto simp: collectDiskInfo_def cache_hit_def DISK_CACHE_TTL_def Let_def
      split: sum.splits option.splits if_splits)

subsection \<open>The slot of a failed disk probe\<close>

text \<open>
  C6 at a Linux host on which \<open>df\<close> fails: the value of the disk collector, which the
  handler puts in the \<open>disk\<close> slot, is an array holding the object \<open>{error, message}\<close>,
  and the \<open>error\<close> property of the slot is \<open>undefined\<close>.
\<close>

theorem disk_failure_slot_is_array:
  "fst (collectDiskInfo sample_rt (\<lambda>out. []) env_df_fails disk_init)
     = JArr [JObj [(''error'', JStr ''Failed to collect disk information''),
                   (''message'', JStr ''Command failed: df -kP'')]]
   \<and> get_prop (slot_of ''Failed to collect disk info''
        (Fulfilled (fst (collectDiskInfo sample_rt (\<lambda>out. []) env_df_fails disk_init)))) ''error''
       = JUndefined"
  by (simp add: df_fails_first disk_error_def slot_of_def)

text \<open>
  The failure values of the other collectors and of a rejected promise are objects whose
  \<open>error\<close> property is a non-empty string.
\<close>

lemma failure_objects_have_error:
  "get_prop (collectHostInfo (Inl msg)) ''error'' = JStr ''Failed to collect host information''"
  "get_prop (collectMemoryInfo rt (Inl msg)) ''error'' = JStr ''Failed to collect memory information''"
  "get_prop (cpu_to_json (CpuError e msg)) ''error'' = JStr e"
  "get_prop (slot_of failure (Rejected reason)) ''error'' = JStr failure"
  by (simp_all add: collectHostInfo_def collectMemoryInfo_def cpu_to_json_def slot_of_def)

subsection \<open>The warnings of the aggregator\<close>

text \<open>
  The handler records one warning, \<open>key: error\<close>, for each of the six slots whose
  \<open>error\<close> property is truthy, in the order of the slots, and the status is \<open>ok\<close> exactly
  when there is none.
\<close>

lemma scan_warnings_concat:
  "scan_warnings rt M keys ws =
     ws @ concat (map (\<lambda>key. if key \<noteq> ''timestamp'' \<and> key \<noteq> ''collectionTimeMs''
                              then slot_warning rt key (get_prop (JObj M) key) else []) keys)"
  by (induction keys arbitrary: ws) (simp_all add: slot_warning_def)

lemma handler_warnings:
  "get_prop (metrics_handler rt s e i srv h m c d n a) ''meta'' =
     (let ws = slot_warning rt ''host'' (slot_of ''Failed to collect host info'' h)
             @ slot_warning rt ''memory'' (slot_of ''Failed to collect memory info'' m)
             @ slot_warning rt ''cpu'' (slot_of ''Failed to collect CPU info'' c)
             @ slot_warning rt ''disk'' (slot_of ''Failed to collect disk info'' d)
             @ slot_warning rt ''network'' (slot_of ''Failed to collect network info'' n)
             @ slot_warning rt ''android'' (slot_of ''Failed to collect Android info'' a)
      in JObj [(''server'', srv),
               (''warnings'', (if ws = [] then JUndefined else JArr (map JStr ws))),
               (''status'', JStr (if ws = [] then ''ok'' else ''partial''))])"
proof -
  define ws where "ws = slot_warning rt ''host'' (slot_of ''Failed to collect host info'' h)
             @ slot_warning rt ''memory'' (slot_of ''Failed to collect memory info'' m)
             @ slot_warning rt ''cpu'' (slot_of ''Failed to collect CPU info'' c)
             @ slot_warning rt ''disk'' (slot_of ''Failed to collect disk info'' d)
             @ slot_warning rt ''network'' (slot_of ''Failed to collect network info'' n)
             @ slot_warning rt ''android'' (slot_of ''Failed to collect Android info'' a)"
  define M where "M = [(''timestamp'', JStr i),
             (''collectionTimeMs'', JNum (Some (real_of_int (e - s)))),
             (''host'', slot_of ''Failed to collect host info'' h),
             (''memory'', slot_of ''Failed to collect memory info'' m),
             (''cpu'', slot_of ''Failed to collect CPU info'' c),
             (''disk'', slot_of ''Failed to collect disk info'' d),
             (''network'', slot_of ''Failed to collect network info'' n),
             (''android'', slot_of ''Failed to collect Android info'' a)]"
  have scan: "scan_warnings rt M (map fst M) [] = ws"
    unfolding scan_warnings_concat by (simp add: M_def ws_def)
  have meta: "get_prop (JObj (M @ [(''meta'', x)])) ''meta'' = x" for x
    by (simp add: M_def)
  have "metrics_handler rt s e i srv h m c d n a =
      JObj (M @ [(''meta'', JObj [(''server'', srv),
               (''warnings'', (if length ws > 0 then JArr (map JStr ws) else JUndefined)),
               (''status'', JStr (if length ws = 0 then ''ok'' else ''partial''))])])"
    unfolding metrics_handler_def Let_def M_def [symmetric] scan ..
  then have "get_prop (metrics_handler rt s e i srv h m c d n a) ''meta'' =
      JObj [(''server'', srv),
               (''warnings'', (if length ws > 0 then JArr (map JStr ws) else JUndefined)),
               (''status'', JStr (if length ws = 0 then ''ok'' else ''partial''))]"
    by (simp only: meta)
  then show ?thesis
    unfolding Let_def ws_def [symmetric] by (cases ws) simp_all
qed

text \<open>
  Six rejected promises give six warnings; a rejected network promise among payloads
  without an \<open>error\<close> property gives the one warning of the network.
\<close>

lemma all_rejected_six_warnings:
  "get_prop (metrics_handler rt s e i srv (Rejected r1) (Rejected r2) (Rejected r3) (Rejected r4)
       (Rejected r5) (Rejected r6)) ''meta'' =
     JObj [(''server'', srv),
           (''warnings'', JArr (map JStr
              [''host: Failed to collect host info'', ''memory: Failed to collect memory info'',
               ''cpu: Failed to collect CPU info'', ''disk: Failed to collect disk info'',
               ''network: Failed to collect network info'',
               ''android: Failed to collect Android info''])),
           (''status'', JStr ''partial'')]"
  by (simp add: handler_warnings slot_warning_def slot_of_def)

lemma network_rejected_one_warning:
  assumes "\<not> truthy (get_prop h ''error'')" "\<not> truthy (get_prop m ''error'')"
    "\<not> truthy (get_prop c ''error'')" "\<not> truthy (get_prop d ''error'')"
    "\<not> truthy (get_prop a ''error'')"
  shows "get_prop (metrics_handler rt s e i srv (Fulfilled h) (Fulfilled m) (Fulfilled c)
       (Fulfilled d) (Rejected r) (Fulfilled a)) ''meta'' =
     JObj [(''server'', srv),
           (''warnings'', JArr [JStr ''network: Failed to collect network info'']),
           (''status'', JStr ''partial'')]"
  using assms by (simp add: handler_warnings slot_warning_def slot_of_def)

text \<open>
  The value of the disk collector is always an array, so its slot never adds a warning.
\<close>

lemma disk_value_is_array:
  assumes "\<forall>c. diskCache st = Some c \<longrightarrow> (\<exists>xs. c = JArr xs)"
  shows "(\<exists>xs. fst (collectDiskInfo rt w env st) = JArr xs)
     \<and> (\<forall>c. diskCache (fst (snd (collectDiskInfo rt w env st))) = Some c \<longrightarrow> (\<exists>xs. c = JArr xs))"
  using assms
  by (auto simp: collectDiskInfo_def cache_hit_def disk_error_def Let_def
      split: sum.splits option.splits if_splits)

lemma disk_slot_never_warns:
  assumes "\<forall>c. diskCache st = Some c \<longrightarrow> (\<exists>xs. c = JArr xs)"
  shows "slot_warning rt' ''disk''
      (slot_of ''Failed to collect disk info'' (Fulfilled (fst (collectDiskInfo rt w env st)))) = []"
proof -
  obtain xs where "fst (collectDiskInfo rt w env st) = JArr xs"
    using disk_value_is_array [OF assms] by blast
  then show ?thesis by (simp add: slot_warning_def slot_of_def)
qed

lemma cpu_ok_value:
  "cpu_ok = JObj [(''usage'', JNum (Some 5)),
       (''loadavg'', JArr [JNum (Some (1 / 2)), JNum (Some (1 / 4)), JNum (Some (1 / 8))]),
       (''cores'', JNum (Some 0)), (''model'', JStr ''Unknown''), (''speed'', JNum (Some 0)),
       (''coreUsage'', JArr [])]"
  by (simp add: cpu_ok_def cpu_to_json_def run_first_collect)

lemma snapshot_all_fail_meta:
  "get_prop snapshot_all_fail ''meta''
     = JObj [(''server'', JObj []),
             (''warnings'', JArr [JStr ''host: Failed to collect host information'',
                JStr ''memory: Failed to collect memory information'',
                JStr ''cpu: Failed to collect CPU information'',
                JStr ''network: Failed to collect network info'',
                JStr ''android: Failed to collect Android info'']),
             (''status'', JStr ''partial'')]"
proof -
  have cpu: "fst (collectCpuInfo env_cpus_fail cpu_init)
      = CpuError ''Failed to collect CPU information'' ''os.cpus is not available''"
    by (simp add: collectCpuInfo_def env_cpus_fail_def)
  show ?thesis
    by (simp add: snapshot_all_fail_def handler_warnings slot_warning_def slot_of_def cpu
          cpu_to_json_def collectHostInfo_def collectMemoryInfo_def df_fails_first disk_error_def)
qed

text \<open>
  C1 at two cycles. When only \<open>df\<close> failed, the \<open>disk\<close> slot holds the failure of the
  disk probe, no warning is recorded and the status is \<open>ok\<close>. When all six probes failed,
  five warnings are recorded and none names the disk.
\<close>

theorem disk_failure_gives_no_warning:
  "get_prop snapshot_df_fails ''disk''
     = JArr [JObj [(''error'', JStr ''Failed to collect disk information''),
                   (''message'', JStr ''Command failed: df -kP'')]]
   \<and> get_prop snapshot_df_fails ''meta''
     = JObj [(''server'', JObj []), (''warnings'', JUndefined), (''status'', JStr ''ok'')]
   \<and> get_prop snapshot_all_fail ''meta''
     = JObj [(''server'', JObj []),
             (''warnings'', JArr [JStr ''host: Failed to collect host information'',
                JStr ''memory: Failed to collect memory information'',
                JStr ''cpu: Failed to collect CPU information'',
                JStr ''network: Failed to collect network info'',
                JStr ''android: Failed to collect Android info'']),
             (''status'', JStr ''partial'')]"
proof -
  have "get_prop snapshot_df_fails ''disk''
     = JArr [JObj [(''error'', JStr ''Failed to collect disk information''),
                   (''message'', JStr ''Command failed: df -kP'')]]"
    by (simp add: snapshot_df_fails_def metrics_handler_def df_fails_first disk_error_def
          slot_of_def Let_def)
  moreover have "get_prop snapshot_df_fails ''meta''
     = JObj [(''server'', JObj []), (''warnings'', JUndefined), (''status'', JStr ''ok'')]"
    by (simp add: snapshot_df_fails_def handler_warnings slot_warning_def df_fails_first
          disk_error_def slot_of_def host_ok_def collectHostInfo_def memory_ok_def cpu_ok_value
          network_ok_def android_ok_def)
  ultimately show ?thesis using snapshot_all_fail_meta by (intro conjI)
qed

subsection \<open>The Android collector off Linux\<close>

lemma android_off_linux:
  assumes "process_platform env \<noteq> ''linux''" and "androidCache st = None"
  shows "collectAndroidInfo rt env st =
    (JObj [(''available'', JBool False),
           (''reason'', JStr (''Android features not available on '' @ process_platform env))],
     st, [])"
  using assms by (simp add: collectAndroidInfo_def cache_hit_def)

lemma android_run_off_linux:
  assumes "\<forall>env \<in> set envs. process_platform env \<noteq> ''linux''" and "androidCache st = None"
  shows "android_run rt envs st =
    (map (\<lambda>env. JObj [(''available'', JBool False),
            (''reason'', JStr (''Android features not available on '' @ process_platform env))]) envs,
     st, [])"
  using assms
proof (induction envs)
  case Nil
  then show ?case by simp
next
  case (Cons env envs)
  then have "process_platform env \<noteq> ''linux''" by simp
  from android_off_linux [OF this Cons.prems(2)] Cons show ?case by simp
qed

text \<open>
  C8. In a process whose platform is not \<open>linux\<close>, every call of \<open>collectAndroidInfo\<close>,
  from the start of the process on, returns \<open>{available: false, reason}\<close> with a non-empty
  reason, makes no external call and leaves the cache empty.
\<close>

theorem android_short_circuit:
  assumes "\<forall>env \<in> set envs. process_platform env \<noteq> ''linux''"
  shows "android_run rt envs android_init =
    (map (\<lambda>env. JObj [(''available'', JBool False),
            (''reason'', JStr (''Android features not available on '' @ process_platform env))]) envs,
     android_init, [])
   \<and> (\<forall>v \<in> set (fst (android_run rt envs android_init)).
         get_prop v ''available'' = JBool False
         \<and> (\<exists>r. get_prop v ''reason'' = JStr r \<and> r \<noteq> []))"
proof -
  have run: "android_run rt envs android_init =
    (map (\<lambda>env. JObj [(''available'', JBool False),
            (''reason'', JStr (''Android features not available on '' @ process_platform env))]) envs,
     android_init, [])"
    using assms by (intro android_run_off_linux) (simp_all add: android_init_def)
  show ?thesis unfolding run by auto
qed

theorem android_short_circuit_witness:
  "process_platform env_darwin_sys \<noteq> ''linux''
   \<and> (\<forall>rt. android_run rt [env_darwin_sys, env_darwin_sys\<lparr>clock := 1700000001000\<rparr>] android_init =
      ([JObj [(''available'', JBool False),
              (''reason'', JStr ''Android features not available on darwin'')],
        JObj [(''available'', JBool False),
              (''reason'', JStr ''Android features not available on darwin'')]],
       android_init, []))"
proof -
  have p: "process_platform env_darwin_sys = ''darwin''"
    by (simp add: env_darwin_sys_def)
  have "\<forall>env \<in> set [env_darwin_sys, env_darwin_sys\<lparr>clock := 1700000001000\<rparr>].
      process_platform env \<noteq> ''linux''"
    by (simp add: p)
  from android_short_circuit [OF this] p show ?thesis by simp
qed

text \<open>
  On Linux the collector does reach outside: on a host with no Termux tool and no thermal
  directory it runs \<open>which\<close> four times and tests two paths.
\<close>

lemma android_on_linux_calls:
  "snd (snd (collectAndroidInfo rt env_df_fails android_init)) =
     [Exec ''which termux-battery-status'', Exists ''/sys/class/thermal'',
      Exec ''which termux-battery-status'', Exec ''which termux-battery-status'',
      Exists ''/proc/version'', Exec ''which termux-battery-status'']"
  by (simp add: android_linux_sample)

end
